theory Spec2Isabelle
  imports Complex_Main "HOL-Library.Word"
begin

section \<open>JavaScript values and strings\<close>

text \<open>
  The server exchanges JSON with its callers and its providers. A JSON value is modelled
  by \<open>json\<close>; an object lists its own properties in order, with distinct keys (what
  \<^verbatim>\<open>JSON.parse\<close> and an object literal produce). JavaScript's \<^verbatim>\<open>undefined\<close>
  is \<open>None\<close> in \<open>json option\<close>. A character of a \<open>string\<close> stands for one UTF-16
  code unit below 256, so the model covers Latin-1 text.
\<close>

subsection \<open>Numbers\<close>

text \<open>
  A JavaScript number is an IEEE 754 double: 64 bits, of which bit 63 is the sign, bits
  62 to 52 the exponent and bits 51 to 0 the fraction. Every 64-bit word is a double and
  every double is a word. Which double the digits of a JSON text denote (the nearest one:
  \<^verbatim>\<open>9007199254740993\<close> is read as \<^verbatim>\<open>9007199254740992\<close>, \<^verbatim>\<open>1e400\<close> as
  \<^verbatim>\<open>Infinity\<close>, \<^verbatim>\<open>1e-400\<close> as \<^verbatim>\<open>0\<close>) is decided where the text is parsed, by
  the body parser, by \<^verbatim>\<open>response.json()\<close> and by \<^verbatim>\<open>JSON.parse\<close>; the handlers
  see the double.
\<close>

type_synonym double = "64 word"

definition exponent :: "double \<Rightarrow> int" where
  "exponent d = uint (take_bit 11 (drop_bit 52 d))"

definition fraction :: "double \<Rightarrow> int" where
  "fraction d = uint (take_bit 52 d)"

definition is_finite :: "double \<Rightarrow> bool" where
  "is_finite d \<longleftrightarrow> exponent d \<noteq> 2047"

definition is_NaN :: "double \<Rightarrow> bool" where
  "is_NaN d \<longleftrightarrow> exponent d = 2047 \<and> fraction d \<noteq> 0"

text \<open>\<^verbatim>\<open>0\<close> and \<^verbatim>\<open>-0\<close>.\<close>

definition is_zero :: "double \<Rightarrow> bool" where
  "is_zero d \<longleftrightarrow> exponent d = 0 \<and> fraction d = 0"

text \<open>The value of a finite double, as a rational.\<close>

definition value_of :: "double \<Rightarrow> rat" where
  "value_of d =
     (let m = (if exponent d = 0 then fraction d else 2 ^ 52 + fraction d);
          e = max 1 (exponent d) - 1075;
          v = (if 0 \<le> e then of_int m * 2 ^ nat e else of_int m / 2 ^ nat (- e))
      in if bit d 63 then - v else v)"

text \<open>
  The doubles that the number literals of the source denote (\<^verbatim>\<open>0.7\<close> and \<^verbatim>\<open>0.8\<close> are
  the nearest doubles), and those of the example runs.
\<close>

definition num_0 :: double where "num_0 = 0x0000000000000000"
definition num_1 :: double where "num_1 = 0x3FF0000000000000"
definition num_5 :: double where "num_5 = 0x4014000000000000"
definition num_28 :: double where "num_28 = 0x403C000000000000"
definition num_200 :: double where "num_200 = 0x4069000000000000"
definition num_500 :: double where "num_500 = 0x407F400000000000"
definition num_1080 :: double where "num_1080 = 0x4090E00000000000"
definition num_1350 :: double where "num_1350 = 0x4095180000000000"
definition num_3_5 :: double where "num_3_5 = 0x400C000000000000"
definition num_0_7 :: double where "num_0_7 = 0x3FE6666666666666"
definition num_0_8 :: double where "num_0_8 = 0x3FE999999999999A"
definition negative_zero :: double where "negative_zero = 0x8000000000000000"
definition infinity :: double where "infinity = 0x7FF0000000000000"

subsection \<open>Values\<close>

datatype json =
    JNull
  | JBool bool
  | JNum double
  | JStr string
  | JArr "json list"
  | JObj "(string \<times> json) list"

text \<open>
  Truthiness, as \<^verbatim>\<open>!x\<close> and \<^verbatim>\<open>x || y\<close> test it: of the numbers, \<^verbatim>\<open>0\<close>,
  \<^verbatim>\<open>-0\<close> and \<^verbatim>\<open>NaN\<close> are falsy.
\<close>

fun truthy :: "json option \<Rightarrow> bool" where
  "truthy None = False"
| "truthy (Some JNull) = False"
| "truthy (Some (JBool b)) = b"
| "truthy (Some (JNum d)) = (\<not> is_zero d \<and> \<not> is_NaN d)"
| "truthy (Some (JStr s)) = (s \<noteq> [])"
| "truthy (Some (JArr xs)) = True"
| "truthy (Some (JObj kvs)) = True"

text \<open>An environment variable is a string or unset; unset and empty are both falsy.\<close>

fun set_env :: "string option \<Rightarrow> bool" where
  "set_env None = False"
| "set_env (Some s) = (s \<noteq> [])"

text \<open>
  An object literal handed to \<^verbatim>\<open>JSON.stringify\<close> or \<^verbatim>\<open>res.json\<close>: a property
  whose value is \<^verbatim>\<open>undefined\<close> is left out.
\<close>

fun literal :: "(string \<times> json option) list \<Rightarrow> (string \<times> json) list" where
  "literal [] = []"
| "literal ((k, None) # kvs) = literal kvs"
| "literal ((k, Some v) # kvs) = (k, v) # literal kvs"

text \<open>
  \<^verbatim>\<open>JSON.stringify(v)\<close>, as the value that the text written denotes: a number that is
  not finite is written \<^verbatim>\<open>null\<close>, \<^verbatim>\<open>-0\<close> is written \<^verbatim>\<open>0\<close>, and every other
  number is written with the digits that are read back as the same double.
\<close>

primrec stringified :: "json \<Rightarrow> json" where
  "stringified JNull = JNull"
| "stringified (JBool b) = JBool b"
| "stringified (JNum d) =
     (if is_finite d then JNum (if d = negative_zero then num_0 else d) else JNull)"
| "stringified (JStr s) = JStr s"
| "stringified (JArr xs) = JArr (map stringified xs)"
| "stringified (JObj kvs) = JObj (map (map_prod id stringified) kvs)"

subsection \<open>Whitespace, trimming, splitting\<close>

text \<open>
  \<^verbatim>\<open>\s\<close> and \<^verbatim>\<open>trim\<close> take tab, line feed, vertical tab, form feed, carriage
  return, space and no-break space (the whitespace below 256). The dot of a regular
  expression without the \<^verbatim>\<open>s\<close> flag matches everything but line feed and carriage
  return.
\<close>

definition is_space :: "char \<Rightarrow> bool" where
  "is_space c \<longleftrightarrow> c \<in> {CHR 0x09, CHR 0x0A, CHR 0x0B, CHR 0x0C, CHR 0x0D, CHR 0x20, CHR 0xA0}"

definition is_line_terminator :: "char \<Rightarrow> bool" where
  "is_line_terminator c \<longleftrightarrow> c = CHR 0x0A \<or> c = CHR 0x0D"

definition trim :: "string \<Rightarrow> string" where
  "trim s = rev (dropWhile is_space (rev (dropWhile is_space s)))"

text \<open>\<^verbatim>\<open>s.split(sep)\<close> for a one-character separator: the empty string gives one empty piece.\<close>

fun split :: "char \<Rightarrow> string \<Rightarrow> string list" where
  "split sep [] = [[]]"
| "split sep (c # cs) =
     (if c = sep then [] # split sep cs
      else (case split sep cs of
              [] \<Rightarrow> [[c]]
            | w # ws \<Rightarrow> (c # w) # ws))"

text \<open>\<^verbatim>\<open>xs.join(', ')\<close>.\<close>

fun join :: "string \<Rightarrow> string list \<Rightarrow> string" where
  "join sep [] = []"
| "join sep [x] = x"
| "join sep (x # y # ys) = x @ sep @ join sep (y # ys)"

text \<open>A number in a template literal: a status code, printed in decimal.\<close>

definition digit :: "nat \<Rightarrow> char" where
  "digit d = char_of (48 + d)"

fun decimal :: "nat \<Rightarrow> string" where
  "decimal n = (if n < 10 then [digit n] else decimal (n div 10) @ [digit (n mod 10)])"

declare decimal.simps [simp del]

subsection \<open>The regular expressions of the content extractor\<close>

text \<open>
  With the \<^verbatim>\<open>i\<close> flag a letter of the pattern matches itself in either case. The
  patterns hold ASCII letters only, and no character above 127 is folded onto one.
\<close>

definition upper :: "char \<Rightarrow> char" where
  "upper c = (let n = (of_char c :: nat) in if 97 \<le> n \<and> n \<le> 122 then char_of (n - 32) else c)"

text \<open>\<open>ci_prefix p s\<close>: \<open>s\<close> starts with \<open>p\<close>, case ignored; the rest of \<open>s\<close> is returned.\<close>

fun ci_prefix :: "string \<Rightarrow> string \<Rightarrow> string option" where
  "ci_prefix [] s = Some s"
| "ci_prefix (p # ps) [] = None"
| "ci_prefix (p # ps) (c # cs) = (if upper p = upper c then ci_prefix ps cs else None)"

text \<open>
  \<^verbatim>\<open>.*?</tag>\<close> from the current position: the lazy star takes the fewest characters,
  none of them a line terminator, up to the first closing tag. The result is the
  captured text and what follows the match.
\<close>

fun lazy_until :: "string \<Rightarrow> string \<Rightarrow> (string \<times> string) option" where
  "lazy_until close [] = (case ci_prefix close [] of Some r \<Rightarrow> Some ([], r) | None \<Rightarrow> None)"
| "lazy_until close (c # cs) =
     (case ci_prefix close (c # cs) of
        Some r \<Rightarrow> Some ([], r)
      | None \<Rightarrow>
          if is_line_terminator c then None
          else (case lazy_until close cs of
                  None \<Rightarrow> None
                | Some (g, r) \<Rightarrow> Some (c # g, r)))"

text \<open>
  \<^verbatim>\<open><tag[^>]*>(.*?)<\/tag>\<close> with flag \<^verbatim>\<open>i\<close>, tried at the start of \<open>s\<close>.
  \<^verbatim>\<open>[^>]*\<close> is greedy and cannot cross a \<^verbatim>\<open>>\<close>, so it ends at the first one.
\<close>

definition match_block :: "string \<Rightarrow> string \<Rightarrow> (string \<times> string) option" where
  "match_block tag s =
     (case ci_prefix (CHR ''<'' # tag) s of
        None \<Rightarrow> None
      | Some r1 \<Rightarrow>
          (case dropWhile (\<lambda>c. c \<noteq> CHR ''>'') r1 of
             [] \<Rightarrow> None
           | gt # r2 \<Rightarrow> lazy_until (''</'' @ tag @ ''>'') r2))"

lemma ci_prefix_length: "ci_prefix p s = Some r \<Longrightarrow> length r \<le> length s"
  by (induction p s rule: ci_prefix.induct) (auto split: if_splits)

lemma lazy_until_length: "lazy_until cl s = Some (g, r) \<Longrightarrow> length r \<le> length s"
proof (induction cl s arbitrary: g r rule: lazy_until.induct)
  case (1 cl)
  then show ?case by (auto split: option.splits dest: ci_prefix_length)
next
  case (2 cl c cs)
  show ?case
  proof (cases "ci_prefix cl (c # cs)")
    case (Some r')
    with 2 show ?thesis by (auto dest: ci_prefix_length)
  next
    case None
    with 2 show ?thesis by (fastforce split: if_splits option.splits)
  qed
qed

lemma match_block_shorter:
  assumes "match_block tag s = Some (g, r)"
  shows "length r < length s"
proof -
  from assms obtain r1 gt r2 where
    a: "ci_prefix (CHR ''<'' # tag) s = Some r1" and
    b: "dropWhile (\<lambda>c. c \<noteq> CHR ''>'') r1 = gt # r2" and
    c: "lazy_until (''</'' @ tag @ ''>'') r2 = Some (g, r)"
    by (auto simp: match_block_def split: option.splits list.splits)
  have "length r \<le> length r2" using c by (rule lazy_until_length)
  moreover have "length (gt # r2) \<le> length r1"
    unfolding b [symmetric] by (rule length_dropWhile_le)
  moreover have "length r1 \<le> length s" using a by (rule ci_prefix_length)
  ultimately show ?thesis by simp
qed

text \<open>\<^verbatim>\<open>s.replace(/<tag[^>]*>.*?<\/tag>/gi, '')\<close>: every match, left to right, is removed.\<close>

function remove_blocks :: "string \<Rightarrow> string \<Rightarrow> string" where
  "remove_blocks tag [] = []"
| "remove_blocks tag (c # cs) =
     (case match_block tag (c # cs) of
        Some (g, r) \<Rightarrow> remove_blocks tag r
      | None \<Rightarrow> c # remove_blocks tag cs)"
  by pat_completeness auto
termination
  by (relation "measure (\<lambda>(tag, s). length s)") (auto dest: match_block_shorter)

text \<open>\<^verbatim>\<open>s.replace(/<[^>]*>/g, ' ')\<close>.\<close>

function replace_tags :: "string \<Rightarrow> string" where
  "replace_tags [] = []"
| "replace_tags (c # cs) =
     (if c = CHR ''<'' then
        (case dropWhile (\<lambda>c. c \<noteq> CHR ''>'') cs of
           [] \<Rightarrow> c # replace_tags cs
         | gt # r \<Rightarrow> CHR '' '' # replace_tags r)
      else c # replace_tags cs)"
  by pat_completeness auto
termination
proof (relation "measure length")
  fix c :: char and cs gt r
  assume "dropWhile (\<lambda>c. c \<noteq> CHR ''>'') cs = gt # r"
  then have "length (gt # r) \<le> length cs"
    by (metis length_dropWhile_le)
  then show "(r, c # cs) \<in> measure length" by simp
qed auto

text \<open>\<^verbatim>\<open>s.replace(/\s+/g, ' ')\<close>.\<close>

function collapse_spaces :: "string \<Rightarrow> string" where
  "collapse_spaces [] = []"
| "collapse_spaces (c # cs) =
     (if is_space c then CHR '' '' # collapse_spaces (dropWhile is_space cs)
      else c # collapse_spaces cs)"
  by pat_completeness auto
termination
  by (relation "measure length") (auto simp: length_dropWhile_le less_Suc_eq_le)

text \<open>The text that \<^verbatim>\<open>extractContentFromURL\<close> derives from the fetched markup.\<close>

definition textContent :: "string \<Rightarrow> string" where
  "textContent html =
     trim (collapse_spaces (replace_tags (remove_blocks ''style'' (remove_blocks ''script'' html))))"

text \<open>\<^verbatim>\<open>html.match(/<title[^>]*>(.*?)<\/title>/i)\<close>: the first match, its group.\<close>

fun titleMatch :: "string \<Rightarrow> string option" where
  "titleMatch [] = None"
| "titleMatch (c # cs) =
     (case match_block ''title'' (c # cs) of
        Some (g, r) \<Rightarrow> Some g
      | None \<Rightarrow> titleMatch cs)"

definition title_of :: "string \<Rightarrow> string" where
  "title_of html = (case titleMatch html of Some g \<Rightarrow> trim g | None \<Rightarrow> ''Untitled'')"

section \<open>The server and what surrounds it\<close>

subsection \<open>Errors, requests, replies\<close>

text \<open>
  What can be thrown: an \<^verbatim>\<open>Error\<close> made by the program or a rejected
  \<^verbatim>\<open>fetch\<close> (with its message), a \<^verbatim>\<open>SyntaxError\<close> of \<^verbatim>\<open>JSON.parse\<close>,
  and the engine's \<^verbatim>\<open>TypeError\<close>s: a property read on \<^verbatim>\<open>null\<close> or
  \<^verbatim>\<open>undefined\<close>, a call of a method that is not there, \<^verbatim>\<open>in\<close> applied to a
  value that is not an object.
\<close>

datatype exn =
    Error string
  | SyntaxError string
  | ReadOfNullish "json option" string
  | NotAFunction string
  | NotAnObject json

text \<open>
  The request as a handler sees it, and the response it sends: the status, and the value
  that the handler gives to \<^verbatim>\<open>res.json\<close> (Express writes it with
  \<^verbatim>\<open>JSON.stringify\<close>: the text sent denotes \<open>stringified\<close> of it).
\<close>

record request =
  authorization :: "string option"
  body :: json

record response =
  status_code :: nat
  json_body :: json

text \<open>
  An outbound \<^verbatim>\<open>fetch(url, {method, headers, body})\<close>, the body being what
  \<^verbatim>\<open>JSON.stringify\<close> has written, and what comes back: its
  \<^verbatim>\<open>status\<close>, and what \<^verbatim>\<open>response.text()\<close> and \<^verbatim>\<open>response.json()\<close> give
  (\<open>Inl\<close> when the body is not JSON and \<^verbatim>\<open>json()\<close> throws).
\<close>

record call =
  url :: string
  http_method :: string
  headers :: "(string \<times> string) list"
  payload :: "json option"

record reply =
  status :: nat
  body_text :: string
  body_json :: "exn + json"

datatype fetched = Rejected exn | Resolved reply

text \<open>What a handler does to the outside, in order.\<close>

datatype event = Fetch call | Mkdir string | WriteFile string string

type_synonym outcome = "response \<times> event list"

text \<open>
  The surroundings of one handler run. \<open>net\<close> answers a \<^verbatim>\<open>fetch\<close> from the events
  so far and the call; \<open>JSON_parse\<close>, \<open>toString\<close> (of a value that is not a string)
  and \<open>engine_message\<close> (the text of a \<^verbatim>\<open>TypeError\<close>) belong to the language;
  \<open>toISOString\<close> is the clock; the rest is \<^verbatim>\<open>process.cwd\<close>, \<^verbatim>\<open>path\<close>
  and \<^verbatim>\<open>fs\<close>, where \<open>Some x\<close> is a throw.
\<close>

record world =
  net :: "event list \<Rightarrow> call \<Rightarrow> fetched"
  JSON_parse :: "string \<Rightarrow> exn + json"
  toString :: "json option \<Rightarrow> string"
  engine_message :: "exn \<Rightarrow> string"
  toISOString :: string
  cwd :: string
  path_join :: "string \<Rightarrow> string \<Rightarrow> string"
  existsSync :: "string \<Rightarrow> bool"
  mkdirSync :: "string \<Rightarrow> exn option"
  writeFileSync :: "string \<Rightarrow> string \<Rightarrow> exn option"

record env =
  BE_TOKEN :: "string option"
  OPENAI_API_KEY :: "string option"
  OPENAI_BASE_URL :: "string option"
  FAL_KEY :: "string option"
  RENDER_EXTERNAL_URL :: "string option"
  PORT :: "string option"

text \<open>\<^verbatim>\<open>error.message\<close>.\<close>

fun message :: "world \<Rightarrow> exn \<Rightarrow> string" where
  "message w (Error m) = m"
| "message w (SyntaxError m) = m"
| "message w x = engine_message w x"

text \<open>\<^verbatim>\<open>response.ok\<close>.\<close>

definition ok :: "reply \<Rightarrow> bool" where
  "ok r \<longleftrightarrow> 200 \<le> status r \<and> status r \<le> 299"

text \<open>\<^verbatim>\<open>res.status(c).json({...})\<close>.\<close>

definition respond :: "nat \<Rightarrow> (string \<times> json option) list \<Rightarrow> response" where
  "respond c kvs = \<lparr>status_code = c, json_body = JObj (literal kvs)\<rparr>"

text \<open>\<^verbatim>\<open>process.env.X || d\<close>, and \<^verbatim>\<open>${process.env.X}\<close> in a template.\<close>

fun or_else :: "string option \<Rightarrow> string \<Rightarrow> string" where
  "or_else None d = d"
| "or_else (Some s) d = (if s = [] then d else s)"

fun env_text :: "string option \<Rightarrow> string" where
  "env_text None = ''undefined''"
| "env_text (Some s) = s"

text \<open>\<^verbatim>\<open>${v}\<close> for a value.\<close>

fun String :: "world \<Rightarrow> json option \<Rightarrow> string" where
  "String w (Some (JStr s)) = s"
| "String w v = toString w v"

subsection \<open>Reading properties\<close>

text \<open>
  \<^verbatim>\<open>v.k\<close> for the property names the program reads: none of them is a property of
  a string, a number, a boolean or an array, so only an object can have one.
\<close>

fun read :: "json option \<Rightarrow> string \<Rightarrow> exn + json option" where
  "read None k = Inl (ReadOfNullish None k)"
| "read (Some JNull) k = Inl (ReadOfNullish (Some JNull) k)"
| "read (Some (JObj kvs)) k = Inr (map_of kvs k)"
| "read (Some v) k = Inr None"

text \<open>\<^verbatim>\<open>v?.k\<close>, and \<^verbatim>\<open>v.k\<close> where \<open>v\<close> is known not to be null.\<close>

fun read_opt :: "json option \<Rightarrow> string \<Rightarrow> json option" where
  "read_opt (Some (JObj kvs)) k = map_of kvs k"
| "read_opt v k = None"

text \<open>\<^verbatim>\<open>v[0]\<close>: of an array, of an object with a property \<^verbatim>\<open>"0"\<close>, of a string.\<close>

fun first :: "json option \<Rightarrow> exn + json option" where
  "first None = Inl (ReadOfNullish None ''0'')"
| "first (Some JNull) = Inl (ReadOfNullish (Some JNull) ''0'')"
| "first (Some (JArr [])) = Inr None"
| "first (Some (JArr (x # xs))) = Inr (Some x)"
| "first (Some (JObj kvs)) = Inr (map_of kvs ''0'')"
| "first (Some (JStr [])) = Inr None"
| "first (Some (JStr (c # cs))) = Inr (Some (JStr [c]))"
| "first (Some v) = Inr None"

text \<open>A destructuring default, \<^verbatim>\<open>{k = d}\<close>: taken when the property is \<^verbatim>\<open>undefined\<close>.\<close>

fun dflt :: "json option \<Rightarrow> json \<Rightarrow> json" where
  "dflt None d = d"
| "dflt (Some v) d = v"

subsection \<open>Authentication middleware\<close>

text \<open>\<^verbatim>\<open>authHeader && authHeader.split(' ')[1]\<close>.\<close>

definition token :: "request \<Rightarrow> string option" where
  "token req =
     (case authorization req of
        None \<Rightarrow> None
      | Some authHeader \<Rightarrow>
          if authHeader = [] then Some []
          else (case split CHR '' '' authHeader of
                  a # t # rest \<Rightarrow> Some t
                | _ \<Rightarrow> None))"

datatype gate = Next | Answer response

definition authenticateToken :: "env \<Rightarrow> request \<Rightarrow> gate" where
  "authenticateToken e req =
     (if \<not> set_env (BE_TOKEN e) then Next
      else if token req = None \<or> token req = Some [] \<or> token req \<noteq> BE_TOKEN e
        then Answer (respond 401 [(''error'', Some (JStr ''unauthorized''))])
      else Next)"

text \<open>
  \<^verbatim>\<open>app.post(path, authenticateToken, handler)\<close>: the handler runs when the middleware
  calls \<^verbatim>\<open>next()\<close>, and not otherwise.
\<close>

definition guarded :: "env \<Rightarrow> (request \<Rightarrow> outcome) \<Rightarrow> request \<Rightarrow> outcome" where
  "guarded e handler req =
     (case authenticateToken e req of
        Next \<Rightarrow> handler req
      | Answer r \<Rightarrow> (r, []))"

subsection \<open>Summarize article endpoint\<close>

definition systemPrompt :: string where
  \<open>systemPrompt =
     ''You are a news summarizer. Analyze the provided text and return ONLY a valid JSON object with these exact keys:\<newline>'' @
     ''- summary_one_liner: A concise, neutral summary in one sentence\<newline>'' @
     ''- visual_brief: A brief description for a lightly humorous, non-violent illustration\<newline>'' @
     ''- image_prompt: A detailed prompt for generating the illustration\<newline>'' @
     ''- action: Set to "SKIP" if content involves minors, death, sexual violence, or serious ongoing crimes; otherwise set to "PROCEED"\<newline>'' @
     ''\<newline>'' @
     ''Rules:\<newline>'' @
     ''- Be neutral and factual in summary\<newline>'' @
     ''- Anonymize any private individuals mentioned\<newline>'' @
     ''- Keep visual brief light and humorous, never violent\<newline>'' @
     ''- Return ONLY valid JSON, no prose or explanations\<newline>'' @
     ''- If sensitive content detected, set action to "SKIP"''\<close>

text \<open>The completion request of the summarizer, for the text of the article.\<close>

definition summarize_call :: "env \<Rightarrow> json option \<Rightarrow> call" where
  "summarize_call e txt =
     \<lparr>url = or_else (OPENAI_BASE_URL e) ''https://api.openai.com/v1'' @ ''/chat/completions'',
      http_method = ''POST'',
      headers = [(''Content-Type'', ''application/json''),
                 (''Authorization'', ''Bearer '' @ env_text (OPENAI_API_KEY e))],
      payload = Some (stringified (JObj (literal
        [(''model'', Some (JStr ''gpt-4o-mini'')),
         (''messages'', Some (JArr
            [JObj (literal [(''role'', Some (JStr ''system'')), (''content'', Some (JStr systemPrompt))]),
             JObj (literal [(''role'', Some (JStr ''user'')), (''content'', txt)])])),
         (''temperature'', Some (JNum num_0_7)),
         (''max_tokens'', Some (JNum num_500))])))\<rparr>"

text \<open>\<^verbatim>\<open>data.choices[0]?.message?.content\<close>.\<close>

definition first_choice_content :: "json \<Rightarrow> exn + json option" where
  "first_choice_content data =
     (case read (Some data) ''choices'' of
        Inl x \<Rightarrow> Inl x
      | Inr choices \<Rightarrow>
          (case first choices of
             Inl x \<Rightarrow> Inl x
           | Inr choice \<Rightarrow> Inr (read_opt (read_opt choice ''message'') ''content'')))"

text \<open>
  Removing a Markdown fence: \<^verbatim>\<open>s.startsWith(p)\<close>, then \<^verbatim>\<open>/^p\s*/\<close> at the
  start (where \<open>p\<close> is known to be there) and \<^verbatim>\<open>/\s*```$/\<close> at the end.
\<close>

definition startsWith :: "string \<Rightarrow> string \<Rightarrow> bool" where
  "startsWith s p \<longleftrightarrow> take (length p) s = p"

definition strip_fence_start :: "string \<Rightarrow> string \<Rightarrow> string" where
  "strip_fence_start p s = dropWhile is_space (drop (length p) s)"

definition strip_fence_end :: "string \<Rightarrow> string" where
  "strip_fence_end s =
     (if take 3 (rev s) = ''```'' then rev (dropWhile is_space (drop 3 (rev s))) else s)"

definition cleanContent :: "string \<Rightarrow> string" where
  "cleanContent content =
     (let c0 = trim content;
          c1 = (if startsWith c0 ''```json''
                then strip_fence_end (strip_fence_start ''```json'' c0) else c0)
      in if startsWith c1 ''```''
         then strip_fence_end (strip_fence_start ''```'' c1) else c1)"

definition requiredKeys :: "string list" where
  "requiredKeys = [''summary_one_liner'', ''visual_brief'', ''image_prompt'', ''action'']"

text \<open>
  \<^verbatim>\<open>requiredKeys.filter(key => !(key in parsedContent))\<close>. \<^verbatim>\<open>in\<close> throws on
  a value that is not an object; an array has none of the four keys.
\<close>

fun missingKeys :: "json \<Rightarrow> exn + string list" where
  "missingKeys (JObj kvs) = Inr (filter (\<lambda>key. key \<notin> fst ` set kvs) requiredKeys)"
| "missingKeys (JArr xs) = Inr requiredKeys"
| "missingKeys v = Inl (NotAnObject v)"

text \<open>The response of the inner \<^verbatim>\<open>catch (parseError)\<close>.\<close>

definition parse_failed :: "json option \<Rightarrow> response" where
  "parse_failed content =
     respond 500 [(''error'', Some (JStr ''Failed to parse OpenAI response as JSON'')),
                  (''raw_content'', content)]"

text \<open>Validation of the parsed reply and the response made from it.\<close>

definition validated :: "json \<Rightarrow> json option \<Rightarrow> response" where
  "validated parsedContent content =
     (case missingKeys parsedContent of
        Inl x \<Rightarrow> parse_failed content
      | Inr missing \<Rightarrow>
          if length missing > 0
          then respond 500
                 [(''error'', Some (JStr (''Invalid response format. Missing keys: '' @ join '', '' missing))),
                  (''received'', Some parsedContent)]
          else \<lparr>status_code = 200, json_body = parsedContent\<rparr>)"

text \<open>
  The inner \<^verbatim>\<open>try\<close> of \<^verbatim>\<open>src/server.js\<close>: \<open>content\<close> is truthy; when it is not
  a string, \<^verbatim>\<open>content.trim\<close> is not a function.
\<close>

definition parsed_reply :: "world \<Rightarrow> json option \<Rightarrow> response" where
  "parsed_reply w content =
     (case content of
        Some (JStr c) \<Rightarrow>
          (case JSON_parse w (cleanContent c) of
             Inl x \<Rightarrow> parse_failed content
           | Inr parsedContent \<Rightarrow> validated parsedContent content)
      | _ \<Rightarrow> parse_failed content)"

text \<open>The response of a handler's outer \<^verbatim>\<open>catch (error)\<close>.\<close>

definition caught :: "world \<Rightarrow> exn \<Rightarrow> response" where
  "caught w x = respond 500 [(''error'', Some (JStr (message w x)))]"

text \<open>
  The handler of \<^verbatim>\<open>POST /tools/summarize_article\<close>; \<open>parse\<close> is the inner
  \<^verbatim>\<open>try\<close>, in which the two files differ.
\<close>

definition summarize_with ::
  "(world \<Rightarrow> json option \<Rightarrow> response) \<Rightarrow> env \<Rightarrow> world \<Rightarrow> request \<Rightarrow> outcome" where
  "summarize_with parse e w req =
     (case read (Some (body req)) ''text'' of
        Inl x \<Rightarrow> (caught w x, [])
      | Inr txt \<Rightarrow>
          if \<not> truthy txt then (respond 400 [(''error'', Some (JStr ''text is required''))], [])
          else if \<not> set_env (OPENAI_API_KEY e)
            then (respond 500 [(''error'', Some (JStr ''OpenAI API key not configured''))], [])
          else
            (let rq = summarize_call e txt in
             case net w [] rq of
               Rejected x \<Rightarrow> (caught w x, [Fetch rq])
             | Resolved r \<Rightarrow>
                 if \<not> ok r
                 then (respond (status r)
                         [(''error'', Some (JStr (''OpenAI API error: '' @ decimal (status r)))),
                          (''details'', Some (JStr (body_text r)))],
                       [Fetch rq])
                 else
                   (case body_json r of
                      Inl x \<Rightarrow> (caught w x, [Fetch rq])
                    | Inr data \<Rightarrow>
                        (case first_choice_content data of
                           Inl x \<Rightarrow> (caught w x, [Fetch rq])
                         | Inr content \<Rightarrow>
                             if \<not> truthy content
                             then (respond 500 [(''error'', Some (JStr ''No content received from OpenAI''))],
                                   [Fetch rq])
                             else (parse w content, [Fetch rq])))))"

definition summarize_article :: "env \<Rightarrow> world \<Rightarrow> request \<Rightarrow> outcome" where
  "summarize_article = summarize_with parsed_reply"

text \<open>
  \<^verbatim>\<open>src/ai-news-mcp-tools/server.js\<close> parses the content as it is:
  \<^verbatim>\<open>JSON.parse(content)\<close>, which first turns a value that is not a string into one.
\<close>

definition mcp_parsed_reply :: "world \<Rightarrow> json option \<Rightarrow> response" where
  "mcp_parsed_reply w content =
     (case JSON_parse w (String w content) of
        Inl x \<Rightarrow> parse_failed content
      | Inr parsedContent \<Rightarrow> validated parsedContent content)"

definition mcp_summarize_article :: "env \<Rightarrow> world \<Rightarrow> request \<Rightarrow> outcome" where
  "mcp_summarize_article = summarize_with mcp_parsed_reply"

subsection \<open>Saving an image to the local folder\<close>

text \<open>\<^verbatim>\<open>base64Data.replace(/^data:image\/[a-z]+;base64,/, '')\<close>.\<close>

definition is_lower :: "char \<Rightarrow> bool" where
  "is_lower c \<longleftrightarrow> 97 \<le> (of_char c :: nat) \<and> (of_char c :: nat) \<le> 122"

definition strip_data_url :: "string \<Rightarrow> string" where
  "strip_data_url s =
     (if startsWith s ''data:image/'' then
        (let r = drop (length ''data:image/'') s;
             letters = takeWhile is_lower r;
             r' = dropWhile is_lower r
         in if letters \<noteq> [] \<and> startsWith r' '';base64,''
            then drop (length '';base64,'') r' else s)
      else s)"

text \<open>
  The result of \<^verbatim>\<open>saveImageToFolder\<close>: \<^verbatim>\<open>{success: true, path, filename}\<close> or
  \<^verbatim>\<open>{success: false, error}\<close>.
\<close>

datatype saved = Saved string string | NotSaved string

fun success :: "saved \<Rightarrow> bool" where
  "success (Saved p f) = True"
| "success (NotSaved m) = False"

fun error :: "saved \<Rightarrow> json option" where
  "error (Saved p f) = None"
| "error (NotSaved m) = Some (JStr m)"

text \<open>
  The whole body is inside \<^verbatim>\<open>try\<close>: a throw of \<^verbatim>\<open>mkdirSync\<close> or
  \<^verbatim>\<open>writeFileSync\<close>, and the \<^verbatim>\<open>TypeError\<close> of \<^verbatim>\<open>base64Data.replace\<close> on
  a value that is not a string, end in the \<^verbatim>\<open>catch\<close>. \<^verbatim>\<open>process.cwd\<close>,
  \<^verbatim>\<open>path.join\<close>, \<^verbatim>\<open>existsSync\<close> and \<^verbatim>\<open>Buffer.from\<close> are taken to
  return. The bytes written are those that \<^verbatim>\<open>Buffer.from(base64, 'base64')\<close>
  decodes from the string recorded in the event.
\<close>

definition imagesDir :: "world \<Rightarrow> string" where
  "imagesDir w = path_join w (cwd w) ''ai_generated_images''"

definition saveImageToFolder :: "world \<Rightarrow> json \<Rightarrow> string \<Rightarrow> saved \<times> event list" where
  "saveImageToFolder w base64Data filename =
     (let (made, evs) = (if \<not> existsSync w (imagesDir w)
                         then (mkdirSync w (imagesDir w), [Mkdir (imagesDir w)]) else (None, []))
      in case made of
           Some x \<Rightarrow> (NotSaved (message w x), evs)
         | None \<Rightarrow>
             (case base64Data of
                JStr d \<Rightarrow>
                  (let base64 = strip_data_url d;
                       imagePath = path_join w (imagesDir w) filename
                   in case writeFileSync w imagePath base64 of
                        Some x \<Rightarrow> (NotSaved (message w x), evs @ [WriteFile imagePath base64])
                      | None \<Rightarrow> (Saved imagePath filename, evs @ [WriteFile imagePath base64]))
              | _ \<Rightarrow> (NotSaved (message w (NotAFunction ''base64Data.replace'')), evs)))"

subsection \<open>Image generation endpoints\<close>

text \<open>The provider payload; \<open>loras\<close> is \<open>None\<close> in the endpoint without LoRA.\<close>

definition falPayload :: "json \<Rightarrow> json option \<Rightarrow> json option \<Rightarrow> json" where
  "falPayload b prompt loras =
     (let width = dflt (read_opt (Some b) ''width'') (JNum num_1080);
          height = dflt (read_opt (Some b) ''height'') (JNum num_1350);
          steps = dflt (read_opt (Some b) ''steps'') (JNum num_28);
          guidance = dflt (read_opt (Some b) ''guidance'') (JNum num_3_5);
          sync_mode = dflt (read_opt (Some b) ''sync_mode'') (JBool True)
      in JObj (literal
           [(''prompt'', prompt),
            (''image_size'', Some (JObj [(''width'', width), (''height'', height)])),
            (''num_inference_steps'', Some steps),
            (''guidance_scale'', Some guidance),
            (''enable_safety_checker'', Some (JBool True)),
            (''loras'', loras),
            (''output_format'', Some (JStr ''jpeg'')),
            (''sync_mode'', Some sync_mode)]))"

definition fal_call :: "env \<Rightarrow> string \<Rightarrow> json \<Rightarrow> call" where
  "fal_call e endpoint p =
     \<lparr>url = endpoint,
      http_method = ''POST'',
      headers = [(''Content-Type'', ''application/json''),
                 (''Authorization'', ''Key '' @ env_text (FAL_KEY e))],
      payload = Some (stringified p)\<rparr>"

text \<open>
  \<^verbatim>\<open>!data.images || !data.images[0] || !data.images[0].url\<close>: \<open>Inr None\<close> when the
  test holds, the URL otherwise.
\<close>

definition first_image_url :: "json \<Rightarrow> exn + json option" where
  "first_image_url data =
     (case read (Some data) ''images'' of
        Inl x \<Rightarrow> Inl x
      | Inr images \<Rightarrow>
          if \<not> truthy images then Inr None
          else (case first images of
                  Inl x \<Rightarrow> Inl x
                | Inr img \<Rightarrow>
                    if \<not> truthy img then Inr None
                    else (let u = read_opt img ''url'' in
                          if \<not> truthy u then Inr None else Inr u)))"

text \<open>\<^verbatim>\<open>new Date().toISOString().replace(/[:.]/g, '-')\<close>.\<close>

definition timestamp :: "world \<Rightarrow> string" where
  "timestamp w = map (\<lambda>c. if c = CHR '':'' \<or> c = CHR ''.'' then CHR ''-'' else c) (toISOString w)"

text \<open>\<^verbatim>\<open>v || null\<close>.\<close>

fun or_null :: "json option \<Rightarrow> json" where
  "or_null None = JNull"
| "or_null (Some v) = (if truthy (Some v) then v else JNull)"

text \<open>Saving the image and assembling the response, as both endpoints of \<^verbatim>\<open>src/server.js\<close> do.\<close>

definition save_and_respond :: "world \<Rightarrow> string \<Rightarrow> json \<Rightarrow> outcome" where
  "save_and_respond w filename u =
     (let (saveResult, evs) = saveImageToFolder w u filename
      in (respond 200
            [(''image_url'', Some u),
             (''saved_to_file'', Some (if success saveResult then JStr filename else JNull)),
             (''save_error'', Some (or_null (error saveResult)))],
          evs))"

text \<open>
  From the provider call on: the same in the three image handlers but for the endpoint
  and for \<open>finish\<close>, what is done with the URL of the image.
\<close>

definition generate :: "world \<Rightarrow> call \<Rightarrow> (json \<Rightarrow> outcome) \<Rightarrow> outcome" where
  "generate w rq finish =
     (case net w [] rq of
        Rejected x \<Rightarrow> (caught w x, [Fetch rq])
      | Resolved r \<Rightarrow>
          if \<not> ok r
          then (respond (status r)
                  [(''error'', Some (JStr (''FAL API error: '' @ decimal (status r)))),
                   (''fal'', Some (JStr (body_text r)))],
                [Fetch rq])
          else
            (case body_json r of
               Inl x \<Rightarrow> (caught w x, [Fetch rq])
             | Inr data \<Rightarrow>
                 (case first_image_url data of
                    Inl x \<Rightarrow> (caught w x, [Fetch rq])
                  | Inr None \<Rightarrow>
                      (respond 500 [(''error'', Some (JStr ''No image URL in FAL response'')),
                                    (''fal'', Some data)],
                       [Fetch rq])
                  | Inr (Some u) \<Rightarrow>
                      (let (res, evs) = finish u in (res, Fetch rq # evs)))))"

text \<open>The handler of \<^verbatim>\<open>POST /tools/fal_generate\<close>.\<close>

definition fal_generate :: "env \<Rightarrow> world \<Rightarrow> request \<Rightarrow> outcome" where
  "fal_generate e w req =
     (case read (Some (body req)) ''prompt'' of
        Inl x \<Rightarrow> (caught w x, [])
      | Inr prompt \<Rightarrow>
          if \<not> truthy prompt then (respond 400 [(''error'', Some (JStr ''prompt is required''))], [])
          else if \<not> set_env (FAL_KEY e)
            then (respond 500 [(''error'', Some (JStr ''FAL API key not configured''))], [])
          else generate w
                 (fal_call e ''https://fal.run/fal-ai/flux'' (falPayload (body req) prompt None))
                 (save_and_respond w (''generated_'' @ timestamp w @ ''.jpg'')))"

text \<open>\<^verbatim>\<open>!loras || !Array.isArray(loras) || loras.length === 0\<close>.\<close>

fun no_loras :: "json option \<Rightarrow> bool" where
  "no_loras (Some (JArr xs)) = (length xs = 0)"
| "no_loras v = True"

text \<open>
  The handler of \<^verbatim>\<open>POST /tools/fal_flux_lora_generate\<close>, with what each file does
  with the URL of the image as \<open>finish\<close>.
\<close>

definition lora_generate_with :: "(json \<Rightarrow> outcome) \<Rightarrow> env \<Rightarrow> world \<Rightarrow> request \<Rightarrow> outcome" where
  "lora_generate_with finish e w req =
     (case read (Some (body req)) ''prompt'' of
        Inl x \<Rightarrow> (caught w x, [])
      | Inr prompt \<Rightarrow>
          (let loras = read_opt (Some (body req)) ''loras'' in
           if \<not> truthy prompt then (respond 400 [(''error'', Some (JStr ''prompt is required''))], [])
           else if no_loras loras
             then (respond 400 [(''error'', Some (JStr ''loras array is required''))], [])
           else if \<not> set_env (FAL_KEY e)
             then (respond 500 [(''error'', Some (JStr ''FAL API key not configured''))], [])
           else generate w
                  (fal_call e ''https://fal.run/fal-ai/flux-lora'' (falPayload (body req) prompt loras))
                  finish))"

definition fal_flux_lora_generate :: "env \<Rightarrow> world \<Rightarrow> request \<Rightarrow> outcome" where
  "fal_flux_lora_generate e w =
     lora_generate_with (save_and_respond w (''lora_'' @ timestamp w @ ''.jpg'')) e w"

text \<open>In \<^verbatim>\<open>src/ai-news-mcp-tools/server.js\<close> the image is not saved.\<close>

definition mcp_fal_flux_lora_generate :: "env \<Rightarrow> world \<Rightarrow> request \<Rightarrow> outcome" where
  "mcp_fal_flux_lora_generate e w =
     lora_generate_with (\<lambda>u. (respond 200 [(''image_url'', Some u)], [])) e w"

subsection \<open>Extracting content from a URL\<close>

record extractedContent =
  ex_title :: string
  ex_content :: string
  ex_url :: json

definition extract_call :: "world \<Rightarrow> json \<Rightarrow> call" where
  "extract_call w u =
     \<lparr>url = String w (Some u),
      http_method = ''GET'',
      headers = [(''User-Agent'', ''Mozilla/5.0 (Macintosh; Intel Mac OS X 10_15_7) AppleWebKit/537.36 (KHTML, like Gecko) Chrome/91.0.4472.124 Safari/537.36'')],
      payload = None\<rparr>"

text \<open>
  Whatever is thrown inside is caught and thrown again as an \<^verbatim>\<open>Error\<close> whose message
  starts with \<^verbatim>\<open>Failed to extract content from URL: \<close>.
\<close>

definition extractContentFromURL :: "world \<Rightarrow> json \<Rightarrow> (exn + extractedContent) \<times> event list" where
  "extractContentFromURL w u =
     (let rq = extract_call w u in
      case net w [] rq of
        Rejected x \<Rightarrow>
          (Inl (Error (''Failed to extract content from URL: '' @ message w x)), [Fetch rq])
      | Resolved r \<Rightarrow>
          if \<not> ok r
          then (Inl (Error (''Failed to extract content from URL: '' @
                            ''HTTP error! status: '' @ decimal (status r))),
                [Fetch rq])
          else (let html = body_text r in
                (Inr \<lparr>ex_title = title_of html,
                      ex_content = take 5000 (textContent html),
                      ex_url = u\<rparr>,
                 [Fetch rq])))"

subsection \<open>Complete news processing workflow endpoint\<close>

definition base_url :: "env \<Rightarrow> string" where
  "base_url e = or_else (RENDER_EXTERNAL_URL e) (''http://localhost:'' @ or_else (PORT e) ''8787'')"

text \<open>The headers of a call back into this server: the bearer token is added when one is set.\<close>

definition internal_headers :: "env \<Rightarrow> (string \<times> string) list" where
  "internal_headers e =
     (''Content-Type'', ''application/json'') #
     (if set_env (BE_TOKEN e) then [(''Authorization'', ''Bearer '' @ env_text (BE_TOKEN e))] else [])"

definition summary_call :: "env \<Rightarrow> extractedContent \<Rightarrow> call" where
  "summary_call e extracted =
     \<lparr>url = base_url e @ ''/tools/summarize_article'',
      http_method = ''POST'',
      headers = internal_headers e,
      payload = Some (stringified (JObj (literal [(''text'', Some (JStr (ex_content extracted)))])))\<rparr>"

definition lora_call :: "env \<Rightarrow> json \<Rightarrow> call" where
  "lora_call e summaryData =
     \<lparr>url = base_url e @ ''/tools/fal_flux_lora_generate'',
      http_method = ''POST'',
      headers = internal_headers e,
      payload = Some (stringified (JObj (literal
        [(''prompt'', read_opt (Some summaryData) ''image_prompt''),
         (''loras'', Some (JArr
            [JObj [(''path'', JStr ''https://v3.fal.media/files/lion/AXQzFziw_QBmQTQDRSmL8_pytorch_lora_weights.safetensors''),
                   (''scale'', JNum num_1)]]))])))\<rparr>"

definition captionPrompt :: "world \<Rightarrow> json option \<Rightarrow> string" where
  "captionPrompt w one_liner =
     ''Create an engaging Instagram caption for this news summary. Make it:\<newline>'' @
     ''    - Engaging and click-worthy\<newline>'' @
     ''    - Include relevant hashtags\<newline>'' @
     ''    - Keep it under 200 characters\<newline>'' @
     ''    - Use emojis appropriately\<newline>'' @
     ''    - Make it sound like Apple Daily style\<newline>'' @
     ''    \<newline>'' @
     ''    News summary: '' @ String w one_liner @ ''\<newline>'' @
     ''    \<newline>'' @
     ''    Return ONLY the caption text, no additional text.''"

definition caption_call :: "env \<Rightarrow> world \<Rightarrow> json option \<Rightarrow> call" where
  "caption_call e w one_liner =
     \<lparr>url = or_else (OPENAI_BASE_URL e) ''https://api.openai.com/v1'' @ ''/chat/completions'',
      http_method = ''POST'',
      headers = [(''Content-Type'', ''application/json''),
                 (''Authorization'', ''Bearer '' @ env_text (OPENAI_API_KEY e))],
      payload = Some (stringified (JObj (literal
        [(''model'', Some (JStr ''gpt-4o-mini'')),
         (''messages'', Some (JArr
            [JObj (literal [(''role'', Some (JStr ''user'')),
                            (''content'', Some (JStr (captionPrompt w one_liner)))])])),
         (''temperature'', Some (JNum num_0_8)),
         (''max_tokens'', Some (JNum num_200))])))\<rparr>"

text \<open>
  \<^verbatim>\<open>captionData.choices[0]?.message?.content?.trim() || summaryData.summary_one_liner\<close>:
  a content that is neither null, undefined nor a string has no \<^verbatim>\<open>trim\<close>.
\<close>

definition instagramCaption :: "json \<Rightarrow> json option \<Rightarrow> exn + json option" where
  "instagramCaption captionData one_liner =
     (case first_choice_content captionData of
        Inl x \<Rightarrow> Inl x
      | Inr None \<Rightarrow> Inr one_liner
      | Inr (Some JNull) \<Rightarrow> Inr one_liner
      | Inr (Some (JStr t)) \<Rightarrow> Inr (if trim t \<noteq> [] then Some (JStr (trim t)) else one_liner)
      | Inr (Some v) \<Rightarrow> Inl (NotAFunction ''captionData.choices[0]?.message?.content?.trim''))"

text \<open>The response of the workflow's \<^verbatim>\<open>catch (error)\<close>.\<close>

definition failed :: "world \<Rightarrow> exn \<Rightarrow> response" where
  "failed w x = respond 500 [(''error'', Some (JStr (message w x))), (''status'', Some (JStr ''failed''))]"

text \<open>Step 4: Generate Instagram caption, and return the complete workflow result.\<close>

definition caption_step ::
  "env \<Rightarrow> world \<Rightarrow> json \<Rightarrow> extractedContent \<Rightarrow> json \<Rightarrow> json \<Rightarrow> event list \<Rightarrow> outcome" where
  "caption_step e w u extracted summaryData imageData evs =
     (let one_liner = read_opt (Some summaryData) ''summary_one_liner'';
          rq = caption_call e w one_liner in
      case net w evs rq of
        Rejected x \<Rightarrow> (failed w x, evs @ [Fetch rq])
      | Resolved r \<Rightarrow>
          if \<not> ok r
          then (failed w (Error (''Caption generation failed: '' @ decimal (status r))), evs @ [Fetch rq])
          else
            (case body_json r of
               Inl x \<Rightarrow> (failed w x, evs @ [Fetch rq])
             | Inr captionData \<Rightarrow>
                 (case instagramCaption captionData one_liner of
                    Inl x \<Rightarrow> (failed w x, evs @ [Fetch rq])
                  | Inr caption \<Rightarrow>
                      (respond 200
                         [(''status'', Some (JStr ''success'')),
                          (''url'', Some u),
                          (''title'', Some (JStr (ex_title extracted))),
                          (''summary'', one_liner),
                          (''visual_brief'', read_opt (Some summaryData) ''visual_brief''),
                          (''image_prompt'', read_opt (Some summaryData) ''image_prompt''),
                          (''image_url'', read_opt (Some imageData) ''image_url''),
                          (''saved_image'', read_opt (Some imageData) ''saved_to_file''),
                          (''instagram_caption'', caption),
                          (''timestamp'', Some (JStr (toISOString w)))],
                       evs @ [Fetch rq]))))"

text \<open>
  Step 3: Generate image using LoRA. The log line after it reads
  \<^verbatim>\<open>imageData.saved_to_file\<close>, which throws when the reply is \<^verbatim>\<open>null\<close>.
\<close>

definition image_step ::
  "env \<Rightarrow> world \<Rightarrow> json \<Rightarrow> extractedContent \<Rightarrow> json \<Rightarrow> event list \<Rightarrow> outcome" where
  "image_step e w u extracted summaryData evs =
     (let rq = lora_call e summaryData in
      case net w evs rq of
        Rejected x \<Rightarrow> (failed w x, evs @ [Fetch rq])
      | Resolved r \<Rightarrow>
          if \<not> ok r
          then (failed w (Error (''Image generation failed: '' @ decimal (status r))), evs @ [Fetch rq])
          else
            (case body_json r of
               Inl x \<Rightarrow> (failed w x, evs @ [Fetch rq])
             | Inr imageData \<Rightarrow>
                 (case read (Some imageData) ''saved_to_file'' of
                    Inl x \<Rightarrow> (failed w x, evs @ [Fetch rq])
                  | Inr logged \<Rightarrow>
                      caption_step e w u extracted summaryData imageData (evs @ [Fetch rq]))))"

text \<open>
  Step 2: Summarize and create image prompt; then the check whether to skip this content.
  The log line after the reply reads \<^verbatim>\<open>summaryData.summary_one_liner\<close>, which throws
  when the reply is \<^verbatim>\<open>null\<close>.
\<close>

definition summary_step ::
  "env \<Rightarrow> world \<Rightarrow> json \<Rightarrow> extractedContent \<Rightarrow> event list \<Rightarrow> outcome" where
  "summary_step e w u extracted evs =
     (let rq = summary_call e extracted in
      case net w evs rq of
        Rejected x \<Rightarrow> (failed w x, evs @ [Fetch rq])
      | Resolved r \<Rightarrow>
          if \<not> ok r
          then (failed w (Error (''Summary failed: '' @ decimal (status r))), evs @ [Fetch rq])
          else
            (case body_json r of
               Inl x \<Rightarrow> (failed w x, evs @ [Fetch rq])
             | Inr summaryData \<Rightarrow>
                 (case read (Some summaryData) ''summary_one_liner'' of
                    Inl x \<Rightarrow> (failed w x, evs @ [Fetch rq])
                  | Inr logged \<Rightarrow>
                      if read_opt (Some summaryData) ''action'' = Some (JStr ''SKIP'')
                      then (respond 200
                              [(''status'', Some (JStr ''skipped'')),
                               (''reason'', Some (JStr ''Content flagged as sensitive'')),
                               (''url'', Some u),
                               (''title'', Some (JStr (ex_title extracted)))],
                            evs @ [Fetch rq])
                      else image_step e w u extracted summaryData (evs @ [Fetch rq]))))"

text \<open>The handler of \<^verbatim>\<open>POST /tools/process_news_url\<close>, with Step 1: Extract content from URL.\<close>

definition process_news_url :: "env \<Rightarrow> world \<Rightarrow> request \<Rightarrow> outcome" where
  "process_news_url e w req =
     (case read (Some (body req)) ''url'' of
        Inl x \<Rightarrow> (failed w x, [])
      | Inr None \<Rightarrow> (respond 400 [(''error'', Some (JStr ''url is required''))], [])
      | Inr (Some u) \<Rightarrow>
          if \<not> truthy (Some u) then (respond 400 [(''error'', Some (JStr ''url is required''))], [])
          else
            (case extractContentFromURL w u of
               (Inl x, evs) \<Rightarrow> (failed w x, evs)
             | (Inr extracted, evs) \<Rightarrow> summary_step e w u extracted evs))"

subsection \<open>The two applications\<close>

text \<open>
  The route that Express finds for a request, by method and path. \<open>Unmatched\<close> is any
  other request: it reaches the 404 handler.
\<close>

datatype route =
    Health
  | SummarizeArticle
  | FalGenerate
  | ProcessNewsUrl
  | FalFluxLoraGenerate
  | Unmatched

definition not_found :: outcome where
  "not_found = (respond 404 [(''error'', Some (JStr ''Endpoint not found''))], [])"

text \<open>
  A request as it reaches the application: its \<^verbatim>\<open>Authorization\<close> header, and what
  \<^verbatim>\<open>express.json({ limit: '10mb' })\<close>, the first middleware of both files, makes of
  its body. \<open>Inr b\<close>: the parser sets \<^verbatim>\<open>req.body\<close> to \<open>b\<close> (the parsed JSON text, or
  \<^verbatim>\<open>{}\<close> for a request without a JSON body) and calls \<^verbatim>\<open>next()\<close>. \<open>Inl x\<close>: the
  parser calls \<^verbatim>\<open>next(x)\<close>, because the body is not JSON text of an object or an array,
  or is larger than 10mb, or cannot be read.
\<close>

record arrival =
  header :: "string option"
  parsed :: "exn + json"

text \<open>
  The last middleware, \<^verbatim>\<open>(error, req, res, next)\<close>: Express passes an error given to
  \<^verbatim>\<open>next\<close> by the routes and the 404 handler and hands it to this one.
\<close>

definition internal_error :: outcome where
  "internal_error = (respond 500 [(''error'', Some (JStr ''Internal server error''))], [])"

text \<open>The routes of \<^verbatim>\<open>src/server.js\<close>, and its 404 handler.\<close>

fun routes :: "env \<Rightarrow> world \<Rightarrow> route \<Rightarrow> request \<Rightarrow> outcome" where
  "routes e w Health req = (respond 200 [(''ok'', Some (JBool True))], [])"
| "routes e w SummarizeArticle req = guarded e (summarize_article e w) req"
| "routes e w FalGenerate req = guarded e (fal_generate e w) req"
| "routes e w ProcessNewsUrl req = guarded e (process_news_url e w) req"
| "routes e w FalFluxLoraGenerate req = guarded e (fal_flux_lora_generate e w) req"
| "routes e w Unmatched req = not_found"

text \<open>\<^verbatim>\<open>src/server.js\<close>: the body parser, then the routes, or else the error handler.\<close>

definition app :: "env \<Rightarrow> world \<Rightarrow> route \<Rightarrow> arrival \<Rightarrow> outcome" where
  "app e w rt a =
     (case parsed a of
        Inl x \<Rightarrow> internal_error
      | Inr b \<Rightarrow> routes e w rt \<lparr>authorization = header a, body = b\<rparr>)"

text \<open>
  The routes of \<^verbatim>\<open>src/ai-news-mcp-tools/server.js\<close>, which has two of the tool routes,
  and its 404 handler.
\<close>

fun mcp_routes :: "env \<Rightarrow> world \<Rightarrow> route \<Rightarrow> request \<Rightarrow> outcome" where
  "mcp_routes e w Health req = (respond 200 [(''ok'', Some (JBool True))], [])"
| "mcp_routes e w SummarizeArticle req = guarded e (mcp_summarize_article e w) req"
| "mcp_routes e w FalFluxLoraGenerate req = guarded e (mcp_fal_flux_lora_generate e w) req"
| "mcp_routes e w rt req = not_found"

text \<open>\<^verbatim>\<open>src/ai-news-mcp-tools/server.js\<close>, with the same parser and error handler.\<close>

definition mcp_app :: "env \<Rightarrow> world \<Rightarrow> route \<Rightarrow> arrival \<Rightarrow> outcome" where
  "mcp_app e w rt a =
     (case parsed a of
        Inl x \<Rightarrow> internal_error
      | Inr b \<Rightarrow> mcp_routes e w rt \<lparr>authorization = header a, body = b\<rparr>)"

subsection \<open>Surroundings of the example runs\<close>

text \<open>
  Two environments, and a world that answers the calls of a run from a list, in order
  (a call after the last one is refused), parses the texts of a table, has the image
  folder in place and writes as \<open>write\<close> says.
\<close>

definition no_env :: env where
  "no_env = \<lparr>BE_TOKEN = None, OPENAI_API_KEY = None, OPENAI_BASE_URL = None,
             FAL_KEY = None, RENDER_EXTERNAL_URL = None, PORT = None\<rparr>"

definition keyed_env :: env where
  "keyed_env = \<lparr>BE_TOKEN = Some ''s3cret'', OPENAI_API_KEY = Some ''sk-test'',
                OPENAI_BASE_URL = None, FAL_KEY = Some ''fal-test'',
                RENDER_EXTERNAL_URL = None, PORT = None\<rparr>"

definition scripted ::
  "reply list \<Rightarrow> (string \<times> json) list \<Rightarrow> (string \<Rightarrow> string \<Rightarrow> exn option) \<Rightarrow> world" where
  "scripted replies table write =
     \<lparr>net = (\<lambda>evs rq. if length evs < length replies then Resolved (replies ! length evs)
                        else Rejected (Error ''fetch failed'')),
      JSON_parse = (\<lambda>s. case map_of table s of
                           Some v \<Rightarrow> Inr v
                         | None \<Rightarrow> Inl (SyntaxError ''Unexpected token'')),
      toString = (\<lambda>v. ''[object Object]''),
      engine_message = (\<lambda>x. ''TypeError''),
      toISOString = ''2025-01-02T03:04:05.678Z'',
      cwd = ''/srv/app'',
      path_join = (\<lambda>a b. a @ ''/'' @ b),
      existsSync = (\<lambda>p. True),
      mkdirSync = (\<lambda>p. None),
      writeFileSync = write\<rparr>"

text \<open>A reply with status 200 and a JSON body; its text is not read on these paths.\<close>

definition json_reply :: "json \<Rightarrow> reply" where
  "json_reply v = \<lparr>status = 200, body_text = [], body_json = Inr v\<rparr>"



text \<open>
  The whitespace-separated tokens of a header, in the words of C9 and not of the code:
  the maximal runs of characters that are not whitespace, in order.
\<close>

fun tokens_after :: "string \<Rightarrow> string \<Rightarrow> string list" where
  "tokens_after cur [] = (if cur = [] then [] else [cur])"
| "tokens_after cur (c # cs) =
     (if is_space c then (if cur = [] then tokens_after [] cs else cur # tokens_after [] cs)
      else tokens_after (cur @ [c]) cs)"

definition whitespace_separated_tokens :: "string \<Rightarrow> string list" where
  "whitespace_separated_tokens s = tokens_after [] s"


section \<open>Properties\<close>

subsection \<open>Auxiliary facts\<close>

text \<open>The doubles named above have the values of the literals; none is \<^verbatim>\<open>-0\<close>.\<close>

lemma values_of_the_literals:
  "value_of num_0 = 0" "value_of num_1 = 1" "value_of num_5 = 5" "value_of num_28 = 28"
  "value_of num_200 = 200" "value_of num_500 = 500" "value_of num_1080 = 1080"
  "value_of num_1350 = 1350" "value_of num_3_5 = 7 / 2"
  "value_of num_0_7 = 3152519739159347 / 4503599627370496"
  "value_of num_0_8 = 3602879701896397 / 4503599627370496"
  by code_simp+

lemma kinds_of_the_literals:
  "is_finite num_0" "is_finite num_1" "is_finite num_5" "is_finite num_28" "is_finite num_200"
  "is_finite num_500" "is_finite num_1080" "is_finite num_1350" "is_finite num_3_5"
  "is_finite num_0_7" "is_finite num_0_8" "is_finite negative_zero" "\<not> is_finite infinity"
  "\<not> is_NaN infinity" "is_zero num_0" "is_zero negative_zero" "\<not> is_zero num_1"
  by code_simp+

lemma not_negative_zero:
  "num_0 \<noteq> negative_zero" "num_1 \<noteq> negative_zero" "num_5 \<noteq> negative_zero"
  "num_28 \<noteq> negative_zero" "num_200 \<noteq> negative_zero" "num_500 \<noteq> negative_zero"
  "num_1080 \<noteq> negative_zero" "num_1350 \<noteq> negative_zero" "num_3_5 \<noteq> negative_zero"
  "num_0_7 \<noteq> negative_zero" "num_0_8 \<noteq> negative_zero"
  by code_simp+

lemma generate_first_event: "\<exists>evs. snd (generate w rq finish) = Fetch rq # evs"
  by (auto simp: generate_def split: fetched.splits sum.splits option.splits prod.splits)

lemma read_not_null: "v \<noteq> JNull \<Longrightarrow> read (Some v) k = Inr (read_opt (Some v) k)"
  by (cases v) simp_all

lemma split_no_sep: "sep \<notin> set s \<Longrightarrow> split sep s = [s]"
  by (induction s) auto

lemma split_at_sep: "sep \<notin> set a \<Longrightarrow> split sep (a @ sep # b) = a # split sep b"
  by (induction a) auto

lemma split_head:
  assumes "sep \<notin> set t" and "r = [] \<or> hd r = sep"
  shows "\<exists>ps. split sep (t @ r) = t # ps"
proof (cases r)
  case Nil
  with assms show ?thesis by (simp add: split_no_sep)
next
  case (Cons c cs)
  with assms show ?thesis by (simp add: split_at_sep)
qed

lemma split_pieces: "p \<in> set (split sep s) \<Longrightarrow> sep \<notin> set p"
  by (induction s arbitrary: p) (auto split: if_splits list.splits)

lemma token_second_piece:
  assumes "CHR '' '' \<notin> set scheme" and "CHR '' '' \<notin> set t" and "r = [] \<or> hd r = CHR '' ''"
    and "authorization req = Some (scheme @ CHR '' '' # t @ r)"
  shows "token req = Some t"
proof -
  obtain ps where "split CHR '' '' (t @ r) = t # ps"
    using split_head [OF assms(2,3)] by blast
  then have "split CHR '' '' (scheme @ CHR '' '' # t @ r) = scheme # t # ps"
    using assms(1) by (simp add: split_at_sep)
  then show ?thesis using assms(4) by (simp add: token_def)
qed

lemma token_no_space:
  assumes "authorization req = Some h" and "CHR '' '' \<notin> set h"
  shows "token req = None \<or> token req = Some []"
  using assms by (simp add: token_def split_no_sep)

lemma token_has_no_space:
  assumes "token req = Some t"
  shows "CHR '' '' \<notin> set t"
proof (cases "t = []")
  case True
  then show ?thesis by simp
next
  case False
  with assms obtain h a rest where "split CHR '' '' h = a # t # rest"
    by (auto simp: token_def split: option.splits if_splits list.splits)
  then have "t \<in> set (split CHR '' '' h)" by simp
  then show ?thesis by (rule split_pieces)
qed

lemma guarded_rejects:
  "set_env (BE_TOKEN e) \<Longrightarrow> token req \<noteq> BE_TOKEN e \<Longrightarrow>
     guarded e h req =
       (\<lparr>status_code = 401, json_body = JObj [(''error'', JStr ''unauthorized'')]\<rparr>, [])"
  by (simp add: guarded_def authenticateToken_def respond_def)

lemma guarded_open: "\<not> set_env (BE_TOKEN e) \<Longrightarrow> guarded e h req = h req"
  by (simp add: guarded_def authenticateToken_def)

subsection \<open>The claims\<close>

text \<open>
  C6. \<^verbatim>\<open>summarize_article\<close> answers 400 with \<^verbatim>\<open>{"error":"text is required"}\<close>
  whenever the \<^verbatim>\<open>text\<close> field of the request body is missing or the empty string
  (the body is what the JSON body parser left: any value but \<^verbatim>\<open>null\<close>).
  Nothing is fetched (the list of events is empty), and the answer is the same in every
  environment, with or without a provider key: the credential is not looked at. Both
  files have this handler.
\<close>

theorem summarize_article_requires_text:
  assumes "body req \<noteq> JNull"
    and "read_opt (Some (body req)) ''text'' = None
       \<or> read_opt (Some (body req)) ''text'' = Some (JStr [])"
  shows "summarize_article e w req =
           (\<lparr>status_code = 400, json_body = JObj [(''error'', JStr ''text is required'')]\<rparr>, [])
       \<and> mcp_summarize_article e w req =
           (\<lparr>status_code = 400, json_body = JObj [(''error'', JStr ''text is required'')]\<rparr>, [])"
proof -
  have "read (Some (body req)) ''text'' = Inr (read_opt (Some (body req)) ''text'')"
    using assms(1) by (rule read_not_null)
  then show ?thesis
    using assms(2)
    by (auto simp: summarize_article_def mcp_summarize_article_def summarize_with_def respond_def)
qed

theorem summarize_article_requires_text_witness:
  "summarize_article keyed_env (scripted [] [] (\<lambda>p d. None))
     \<lparr>authorization = None, body = JObj [(''text'', JStr [])]\<rparr> =
     (\<lparr>status_code = 400, json_body = JObj [(''error'', JStr ''text is required'')]\<rparr>, [])
   \<and> summarize_article no_env (scripted [] [] (\<lambda>p d. None))
     \<lparr>authorization = None, body = JObj []\<rparr> =
     (\<lparr>status_code = 400, json_body = JObj [(''error'', JStr ''text is required'')]\<rparr>, [])"
  using summarize_article_requires_text
          [of "\<lparr>authorization = None, body = JObj [(''text'', JStr [])]\<rparr>"
              keyed_env "scripted [] [] (\<lambda>p d. None)"]
        summarize_article_requires_text
          [of "\<lparr>authorization = None, body = JObj []\<rparr>"
              no_env "scripted [] [] (\<lambda>p d. None)"]
  by simp

text \<open>
  C7. \<^verbatim>\<open>fal_flux_lora_generate\<close> answers 400 whenever \<^verbatim>\<open>loras\<close> is missing or an
  empty array (in a body that is not \<^verbatim>\<open>null\<close>), and nothing is fetched. With a prompt that passes its own check the answer
  is \<^verbatim>\<open>{"error":"loras array is required"}\<close>. Both files have this handler.
\<close>

theorem lora_requires_loras:
  assumes "body req \<noteq> JNull"
    and "read_opt (Some (body req)) ''loras'' = None
       \<or> read_opt (Some (body req)) ''loras'' = Some (JArr [])"
  shows "status_code (fst (fal_flux_lora_generate e w req)) = 400
       \<and> snd (fal_flux_lora_generate e w req) = []
       \<and> status_code (fst (mcp_fal_flux_lora_generate e w req)) = 400
       \<and> snd (mcp_fal_flux_lora_generate e w req) = []
       \<and> (truthy (read_opt (Some (body req)) ''prompt'') \<longrightarrow>
            fst (fal_flux_lora_generate e w req) =
              \<lparr>status_code = 400, json_body = JObj [(''error'', JStr ''loras array is required'')]\<rparr>
          \<and> fst (mcp_fal_flux_lora_generate e w req) =
              \<lparr>status_code = 400, json_body = JObj [(''error'', JStr ''loras array is required'')]\<rparr>)"
proof -
  have "read (Some (body req)) ''prompt'' = Inr (read_opt (Some (body req)) ''prompt'')"
    using assms(1) by (rule read_not_null)
  then show ?thesis
    using assms(2)
    by (auto simp: fal_flux_lora_generate_def mcp_fal_flux_lora_generate_def
          lora_generate_with_def respond_def Let_def)
qed

theorem lora_requires_loras_witness:
  "fal_flux_lora_generate keyed_env (scripted [] [] (\<lambda>p d. None))
     \<lparr>authorization = None, body = JObj [(''prompt'', JStr ''x''), (''loras'', JArr [])]\<rparr> =
     (\<lparr>status_code = 400, json_body = JObj [(''error'', JStr ''loras array is required'')]\<rparr>, [])"
  using lora_requires_loras
          [of "\<lparr>authorization = None, body = JObj [(''prompt'', JStr ''x''), (''loras'', JArr [])]\<rparr>"
              keyed_env "scripted [] [] (\<lambda>p d. None)"]
  by (simp add: prod_eq_iff)

text \<open>
  C2, as stated, speaks of every request to a tool route. The JSON body parser stands
  before the routes: a request whose body it refuses never reaches the authentication
  middleware. With the secret configured and no \<^verbatim>\<open>Authorization\<close> header, a request
  to \<^verbatim>\<open>/tools/process_news_url\<close> with a body that is not JSON is answered 500
  \<^verbatim>\<open>{"error":"Internal server error"}\<close>, not 401.
\<close>

theorem refused_body_is_answered_500:
  "BE_TOKEN keyed_env = Some ''s3cret''
   \<and> app keyed_env (scripted [] [] (\<lambda>p d. None)) ProcessNewsUrl
         \<lparr>header = None, parsed = Inl (SyntaxError ''Unexpected token } in JSON at position 8'')\<rparr> =
       (\<lparr>status_code = 500, json_body = JObj [(''error'', JStr ''Internal server error'')]\<rparr>, [])
   \<and> mcp_app keyed_env (scripted [] [] (\<lambda>p d. None)) SummarizeArticle
         \<lparr>header = None, parsed = Inl (SyntaxError ''Unexpected token } in JSON at position 8'')\<rparr> =
       (\<lparr>status_code = 500, json_body = JObj [(''error'', JStr ''Internal server error'')]\<rparr>, [])"
  by (simp add: app_def mcp_app_def internal_error_def respond_def keyed_env_def)

text \<open>
  C2, amended. A request whose body the JSON body parser refuses is answered 500
  \<^verbatim>\<open>{"error":"Internal server error"}\<close> on every route, whatever its token, and no
  handler runs. For a request whose body the parser accepts: with a bearer secret
  configured, when its token (what the middleware takes from the \<^verbatim>\<open>Authorization\<close>
  header) is missing or differs from the secret, a request to a tool route is answered
  401 with \<^verbatim>\<open>{"error":"unauthorized"}\<close>: the outcome is the same whatever handler stands
  behind the middleware, and nothing is done to the outside, so the handler has not run.
  With no secret configured, it gets the outcome of the route's handler. This holds for
  the four tool routes of \<^verbatim>\<open>src/server.js\<close> and the two of
  \<^verbatim>\<open>src/ai-news-mcp-tools/server.js\<close>.
\<close>

theorem tool_routes_gate:
  "(parsed a = Inl x \<longrightarrow>
      app e w rt a =
        (\<lparr>status_code = 500, json_body = JObj [(''error'', JStr ''Internal server error'')]\<rparr>, []) \<and>
      mcp_app e w rt a =
        (\<lparr>status_code = 500, json_body = JObj [(''error'', JStr ''Internal server error'')]\<rparr>, []))
   \<and> (parsed a = Inr b \<and> req = \<lparr>authorization = header a, body = b\<rparr> \<and>
      set_env (BE_TOKEN e) \<and> (token req = None \<or> token req \<noteq> BE_TOKEN e) \<longrightarrow>
      (\<forall>handler. guarded e handler req =
         (\<lparr>status_code = 401, json_body = JObj [(''error'', JStr ''unauthorized'')]\<rparr>, [])) \<and>
      (\<forall>rt. rt \<in> {SummarizeArticle, FalGenerate, ProcessNewsUrl, FalFluxLoraGenerate} \<longrightarrow>
         app e w rt a =
           (\<lparr>status_code = 401, json_body = JObj [(''error'', JStr ''unauthorized'')]\<rparr>, [])) \<and>
      (\<forall>rt. rt \<in> {SummarizeArticle, FalFluxLoraGenerate} \<longrightarrow>
         mcp_app e w rt a =
           (\<lparr>status_code = 401, json_body = JObj [(''error'', JStr ''unauthorized'')]\<rparr>, [])))
   \<and> (parsed a = Inr b \<and> req = \<lparr>authorization = header a, body = b\<rparr> \<and>
      \<not> set_env (BE_TOKEN e) \<longrightarrow>
      app e w SummarizeArticle a = summarize_article e w req \<and>
      app e w FalGenerate a = fal_generate e w req \<and>
      app e w ProcessNewsUrl a = process_news_url e w req \<and>
      app e w FalFluxLoraGenerate a = fal_flux_lora_generate e w req \<and>
      mcp_app e w SummarizeArticle a = mcp_summarize_article e w req \<and>
      mcp_app e w FalFluxLoraGenerate a = mcp_fal_flux_lora_generate e w req)"
proof (intro conjI impI allI)
  assume "parsed a = Inl x"
  then show "app e w rt a =
        (\<lparr>status_code = 500, json_body = JObj [(''error'', JStr ''Internal server error'')]\<rparr>, [])"
    and "mcp_app e w rt a =
        (\<lparr>status_code = 500, json_body = JObj [(''error'', JStr ''Internal server error'')]\<rparr>, [])"
    by (simp_all add: app_def mcp_app_def internal_error_def respond_def)
next
  fix rt'
  assume a: "parsed a = Inr b \<and> req = \<lparr>authorization = header a, body = b\<rparr> \<and>
      set_env (BE_TOKEN e) \<and> (token req = None \<or> token req \<noteq> BE_TOKEN e)"
  then have t: "token req \<noteq> BE_TOKEN e" by (cases "BE_TOKEN e") auto
  from a have s: "set_env (BE_TOKEN e)" by simp
  from a have p: "parsed a = Inr b" and r: "\<lparr>authorization = header a, body = b\<rparr> = req"
    by simp_all
  show "guarded e handler req =
      (\<lparr>status_code = 401, json_body = JObj [(''error'', JStr ''unauthorized'')]\<rparr>, [])"
    for handler using s t by (rule guarded_rejects)
  show "app e w rt' a =
      (\<lparr>status_code = 401, json_body = JObj [(''error'', JStr ''unauthorized'')]\<rparr>, [])"
    if "rt' \<in> {SummarizeArticle, FalGenerate, ProcessNewsUrl, FalFluxLoraGenerate}"
    using that s t p r by (auto simp: app_def guarded_rejects)
  show "mcp_app e w rt' a =
      (\<lparr>status_code = 401, json_body = JObj [(''error'', JStr ''unauthorized'')]\<rparr>, [])"
    if "rt' \<in> {SummarizeArticle, FalFluxLoraGenerate}"
    using that s t p r by (auto simp: mcp_app_def guarded_rejects)
qed (simp_all add: app_def mcp_app_def guarded_open)

lemma token_of_wrong_bearer:
  "token \<lparr>authorization = Some ''Bearer wrong'', body = JObj []\<rparr> = Some ''wrong''"
  by (simp add: token_def)

theorem tool_routes_gate_witness:
  "app keyed_env (scripted [] [] (\<lambda>p d. None)) ProcessNewsUrl
       \<lparr>header = Some ''Bearer wrong'', parsed = Inr (JObj [])\<rparr> =
     (\<lparr>status_code = 401, json_body = JObj [(''error'', JStr ''unauthorized'')]\<rparr>, [])
   \<and> mcp_app keyed_env (scripted [] [] (\<lambda>p d. None)) SummarizeArticle
       \<lparr>header = Some ''Bearer wrong'', parsed = Inr (JObj [])\<rparr> =
     (\<lparr>status_code = 401, json_body = JObj [(''error'', JStr ''unauthorized'')]\<rparr>, [])
   \<and> app no_env (scripted [] [] (\<lambda>p d. None)) FalGenerate
       \<lparr>header = Some ''Bearer wrong'', parsed = Inr (JObj [])\<rparr> =
     fal_generate no_env (scripted [] [] (\<lambda>p d. None))
       \<lparr>authorization = Some ''Bearer wrong'', body = JObj []\<rparr>
   \<and> app no_env (scripted [] [] (\<lambda>p d. None)) FalGenerate
       \<lparr>header = Some ''Bearer s3cret'', parsed = Inl (Error ''request entity too large'')\<rparr> =
     (\<lparr>status_code = 500, json_body = JObj [(''error'', JStr ''Internal server error'')]\<rparr>, [])"
  using tool_routes_gate
          [where e = keyed_env and w = "scripted [] [] (\<lambda>p d. None)"
             and a = "\<lparr>header = Some ''Bearer wrong'', parsed = Inr (JObj [])\<rparr>"
             and b = "JObj []"
             and req = "\<lparr>authorization = Some ''Bearer wrong'', body = JObj []\<rparr>"]
        tool_routes_gate
          [where e = no_env and w = "scripted [] [] (\<lambda>p d. None)"
             and a = "\<lparr>header = Some ''Bearer wrong'', parsed = Inr (JObj [])\<rparr>"
             and b = "JObj []"
             and req = "\<lparr>authorization = Some ''Bearer wrong'', body = JObj []\<rparr>"]
        tool_routes_gate
          [where e = no_env and w = "scripted [] [] (\<lambda>p d. None)"
             and a = "\<lparr>header = Some ''Bearer s3cret'',
                        parsed = Inl (Error ''request entity too large'')\<rparr>"
             and x = "Error ''request entity too large''" and rt = FalGenerate]
  by (simp add: token_of_wrong_bearer keyed_env_def no_env_def)

text \<open>
  C9, as stated, says that the second whitespace-separated token of the header is
  compared with the secret. The middleware splits at the space character only: in
  \<^verbatim>\<open>Basic<TAB>s3cret\<close> a tab separates the scheme word from the secret, the second
  whitespace-separated token is the secret, and the request is answered 401.
\<close>

theorem tab_separated_secret_is_rejected:
  "whitespace_separated_tokens (''Basic'' @ [CHR 0x09] @ ''s3cret'') ! 1 = ''s3cret''
   \<and> BE_TOKEN keyed_env = Some ''s3cret''
   \<and> authenticateToken keyed_env
        \<lparr>authorization = Some (''Basic'' @ [CHR 0x09] @ ''s3cret''), body = JObj []\<rparr> =
      Answer \<lparr>status_code = 401, json_body = JObj [(''error'', JStr ''unauthorized'')]\<rparr>"
  by (simp add: whitespace_separated_tokens_def is_space_def keyed_env_def
        authenticateToken_def token_def respond_def)

text \<open>
  C9, amended. With a bearer secret configured, the middleware splits the header at every
  space character and compares the second piece with the secret. A header made of a
  first piece, a space and a second piece, alone or followed by a space and more, passes
  exactly when the second piece is the secret, whatever the first piece is
  (\<^verbatim>\<open>Basic s3cret\<close> as well as \<^verbatim>\<open>Bearer s3cret\<close>). A header with no space in it,
  and the bare secret alone, are answered 401.
\<close>

theorem gate_compares_second_piece:
  assumes "BE_TOKEN e = Some secret" and "secret \<noteq> []"
  shows "(CHR '' '' \<notin> set scheme \<and> CHR '' '' \<notin> set t \<and> (r = [] \<or> hd r = CHR '' '') \<and>
          authorization req = Some (scheme @ CHR '' '' # t @ r)
            \<longrightarrow> (authenticateToken e req = Next \<longleftrightarrow> t = secret))
       \<and> (authorization req = Some h \<and> (CHR '' '' \<notin> set h \<or> h = secret)
            \<longrightarrow> authenticateToken e req =
                  Answer \<lparr>status_code = 401, json_body = JObj [(''error'', JStr ''unauthorized'')]\<rparr>)"
proof (intro conjI impI)
  assume a: "CHR '' '' \<notin> set scheme \<and> CHR '' '' \<notin> set t \<and> (r = [] \<or> hd r = CHR '' '') \<and>
          authorization req = Some (scheme @ CHR '' '' # t @ r)"
  then have "token req = Some t" by (intro token_second_piece [of scheme t r]) auto
  then show "authenticateToken e req = Next \<longleftrightarrow> t = secret"
    using assms by (auto simp: authenticateToken_def)
next
  assume b: "authorization req = Some h \<and> (CHR '' '' \<notin> set h \<or> h = secret)"
  have "token req \<noteq> Some secret"
  proof (cases "CHR '' '' \<in> set h")
    case False
    then have "token req = None \<or> token req = Some []" using b token_no_space by blast
    then show ?thesis using assms(2) by auto
  next
    case True
    then have "CHR '' '' \<in> set secret" using b by auto
    then show ?thesis using token_has_no_space by blast
  qed
  then show "authenticateToken e req =
       Answer \<lparr>status_code = 401, json_body = JObj [(''error'', JStr ''unauthorized'')]\<rparr>"
    using assms by (auto simp: authenticateToken_def respond_def)
qed

theorem gate_compares_second_piece_witness:
  "authenticateToken keyed_env \<lparr>authorization = Some ''Basic s3cret'', body = JObj []\<rparr> = Next
   \<and> authenticateToken keyed_env \<lparr>authorization = Some ''s3cret'', body = JObj []\<rparr> =
       Answer \<lparr>status_code = 401, json_body = JObj [(''error'', JStr ''unauthorized'')]\<rparr>"
  using gate_compares_second_piece
          [of keyed_env "''s3cret''" "''Basic''" "''s3cret''" "[]"
              "\<lparr>authorization = Some ''Basic s3cret'', body = JObj []\<rparr>" "''Basic s3cret''"]
        gate_compares_second_piece
          [of keyed_env "''s3cret''" "''Basic''" "''s3cret''" "[]"
              "\<lparr>authorization = Some ''s3cret'', body = JObj []\<rparr>" "''s3cret''"]
  by (simp add: keyed_env_def)

text \<open>
  C5. The content extractor is claimed to strip every \<^verbatim>\<open><script>\<close> and
  \<^verbatim>\<open><style>\<close> block before it strips the tags. The dot of
  \<^verbatim>\<open>/<script[^>]*>.*?<\/script>/gi\<close> does not match a line terminator, so a block
  whose body spans lines is not matched: only its two tags go, and its body stays in the
  extracted text. Here the document is a paragraph followed by a three-line script block;
  the text comes out as the paragraph's text followed by the script's.
\<close>

theorem textContent_keeps_multiline_script:
  "textContent (''<p>a</p><script>'' @ ''\<newline>'' @ ''var x;'' @ ''\<newline>'' @ ''</script>'')
     = ''a var x;''"
  by code_simp

text \<open>
  C10, as stated, says that every supplied value goes into the provider payload
  unchanged. The payload is written by \<^verbatim>\<open>JSON.stringify\<close>, which has no text for a
  number that is not finite. A body with \<^verbatim>\<open>"width": 1e400\<close> reaches the handler with
  the width \<^verbatim>\<open>Infinity\<close>, and the payload sent has \<^verbatim>\<open>image_size.width\<close>
  \<^verbatim>\<open>null\<close>. (The provider call is refused in this run; the call made is the one
  event.)
\<close>

theorem infinite_width_goes_out_as_null:
  "snd (fal_generate keyed_env (scripted [] [] (\<lambda>p d. None))
          \<lparr>authorization = None,
           body = JObj [(''prompt'', JStr ''a cat''), (''width'', JNum infinity)]\<rparr>)
   = [Fetch \<lparr>url = ''https://fal.run/fal-ai/flux'', http_method = ''POST'',
             headers = [(''Content-Type'', ''application/json''), (''Authorization'', ''Key fal-test'')],
             payload = Some (JObj
               [(''prompt'', JStr ''a cat''),
                (''image_size'', JObj [(''width'', JNull), (''height'', JNum num_1350)]),
                (''num_inference_steps'', JNum num_28),
                (''guidance_scale'', JNum num_3_5),
                (''enable_safety_checker'', JBool True),
                (''output_format'', JStr ''jpeg''),
                (''sync_mode'', JBool True)])\<rparr>]"
  by (simp add: fal_generate_def generate_def fal_call_def falPayload_def scripted_def
        keyed_env_def kinds_of_the_literals not_negative_zero)

text \<open>
  C10, amended. In the image endpoints the defaults (width 1080, height 1350, steps 28,
  guidance 3.5, \<^verbatim>\<open>sync_mode\<close> true) stand in for a field of the request body only when
  the field is absent. A value that is there, as the body parser delivered it (a number
  is the double read from its digits), is put into the payload and written by
  \<^verbatim>\<open>JSON.stringify\<close>: \<^verbatim>\<open>null\<close>, \<^verbatim>\<open>false\<close>, a string and a finite number,
  \<^verbatim>\<open>0\<close> among them, go out as they are; a number that is not finite goes out as
  \<^verbatim>\<open>null\<close> and \<^verbatim>\<open>-0\<close> as \<^verbatim>\<open>0\<close>, also inside an array or an object. The
  payload is the body of the first call that the handler makes, once the prompt (and,
  with LoRA, the \<^verbatim>\<open>loras\<close> array) and the provider key have passed their checks.
\<close>

lemma stringified_dflt:
  "stringified (dflt x d) = (case x of None \<Rightarrow> stringified d | Some v \<Rightarrow> stringified v)"
  by (cases x) simp_all

theorem defaults_only_for_absent_fields:
  assumes "body req = JObj kvs" and "map_of kvs ''prompt'' = Some p" and "truthy (Some p)"
    and "set_env (FAL_KEY e)"
  shows "(\<exists>rq evs. snd (fal_generate e w req) = Fetch rq # evs
            \<and> url rq = ''https://fal.run/fal-ai/flux''
            \<and> payload rq = Some (JObj
                 [(''prompt'', stringified p),
                  (''image_size'',
                     JObj [(''width'', case map_of kvs ''width'' of None \<Rightarrow> JNum num_1080 | Some v \<Rightarrow> stringified v),
                           (''height'', case map_of kvs ''height'' of None \<Rightarrow> JNum num_1350 | Some v \<Rightarrow> stringified v)]),
                  (''num_inference_steps'', case map_of kvs ''steps'' of None \<Rightarrow> JNum num_28 | Some v \<Rightarrow> stringified v),
                  (''guidance_scale'', case map_of kvs ''guidance'' of None \<Rightarrow> JNum num_3_5 | Some v \<Rightarrow> stringified v),
                  (''enable_safety_checker'', JBool True),
                  (''output_format'', JStr ''jpeg''),
                  (''sync_mode'', case map_of kvs ''sync_mode'' of None \<Rightarrow> JBool True | Some v \<Rightarrow> stringified v)]))
       \<and> (map_of kvs ''loras'' = Some (JArr (l # ls)) \<longrightarrow>
           (\<exists>rq evs mevs. snd (fal_flux_lora_generate e w req) = Fetch rq # evs
              \<and> snd (mcp_fal_flux_lora_generate e w req) = Fetch rq # mevs
              \<and> url rq = ''https://fal.run/fal-ai/flux-lora''
              \<and> payload rq = Some (JObj
                   [(''prompt'', stringified p),
                    (''image_size'',
                       JObj [(''width'', case map_of kvs ''width'' of None \<Rightarrow> JNum num_1080 | Some v \<Rightarrow> stringified v),
                             (''height'', case map_of kvs ''height'' of None \<Rightarrow> JNum num_1350 | Some v \<Rightarrow> stringified v)]),
                    (''num_inference_steps'', case map_of kvs ''steps'' of None \<Rightarrow> JNum num_28 | Some v \<Rightarrow> stringified v),
                    (''guidance_scale'', case map_of kvs ''guidance'' of None \<Rightarrow> JNum num_3_5 | Some v \<Rightarrow> stringified v),
                    (''enable_safety_checker'', JBool True),
                    (''loras'', stringified (JArr (l # ls))),
                    (''output_format'', JStr ''jpeg''),
                    (''sync_mode'', case map_of kvs ''sync_mode'' of None \<Rightarrow> JBool True | Some v \<Rightarrow> stringified v)])))
       \<and> (stringified JNull = JNull \<and> stringified (JBool b) = JBool b
          \<and> stringified (JStr s) = JStr s
          \<and> stringified (JNum d) =
                (if is_finite d then JNum (if d = negative_zero then num_0 else d) else JNull)
          \<and> stringified (JNum num_0) = JNum num_0)"
proof (intro conjI impI)
  let ?rq = "fal_call e ''https://fal.run/fal-ai/flux'' (falPayload (body req) (Some p) None)"
  let ?fin = "save_and_respond w (''generated_'' @ timestamp w @ ''.jpg'')"
  have "fal_generate e w req = generate w ?rq ?fin"
    using assms by (simp add: fal_generate_def)
  moreover obtain evs where "snd (generate w ?rq ?fin) = Fetch ?rq # evs"
    using generate_first_event by blast
  ultimately have "snd (fal_generate e w req) = Fetch ?rq # evs" by simp
  moreover have "url ?rq = ''https://fal.run/fal-ai/flux''" by (simp add: fal_call_def)
  moreover have "payload ?rq = Some (JObj
                 [(''prompt'', stringified p),
                  (''image_size'',
                     JObj [(''width'', case map_of kvs ''width'' of None \<Rightarrow> JNum num_1080 | Some v \<Rightarrow> stringified v),
                           (''height'', case map_of kvs ''height'' of None \<Rightarrow> JNum num_1350 | Some v \<Rightarrow> stringified v)]),
                  (''num_inference_steps'', case map_of kvs ''steps'' of None \<Rightarrow> JNum num_28 | Some v \<Rightarrow> stringified v),
                  (''guidance_scale'', case map_of kvs ''guidance'' of None \<Rightarrow> JNum num_3_5 | Some v \<Rightarrow> stringified v),
                  (''enable_safety_checker'', JBool True),
                  (''output_format'', JStr ''jpeg''),
                  (''sync_mode'', case map_of kvs ''sync_mode'' of None \<Rightarrow> JBool True | Some v \<Rightarrow> stringified v)])"
    using assms(1)
    by (simp add: fal_call_def falPayload_def stringified_dflt kinds_of_the_literals
          not_negative_zero split: option.splits)
  ultimately show "\<exists>rq evs. snd (fal_generate e w req) = Fetch rq # evs
            \<and> url rq = ''https://fal.run/fal-ai/flux''
            \<and> payload rq = Some (JObj
                 [(''prompt'', stringified p),
                  (''image_size'',
                     JObj [(''width'', case map_of kvs ''width'' of None \<Rightarrow> JNum num_1080 | Some v \<Rightarrow> stringified v),
                           (''height'', case map_of kvs ''height'' of None \<Rightarrow> JNum num_1350 | Some v \<Rightarrow> stringified v)]),
                  (''num_inference_steps'', case map_of kvs ''steps'' of None \<Rightarrow> JNum num_28 | Some v \<Rightarrow> stringified v),
                  (''guidance_scale'', case map_of kvs ''guidance'' of None \<Rightarrow> JNum num_3_5 | Some v \<Rightarrow> stringified v),
                  (''enable_safety_checker'', JBool True),
                  (''output_format'', JStr ''jpeg''),
                  (''sync_mode'', case map_of kvs ''sync_mode'' of None \<Rightarrow> JBool True | Some v \<Rightarrow> stringified v)])"
    by blast
next
  assume lo: "map_of kvs ''loras'' = Some (JArr (l # ls))"
  let ?rq = "fal_call e ''https://fal.run/fal-ai/flux-lora''
               (falPayload (body req) (Some p) (Some (JArr (l # ls))))"
  let ?fin = "save_and_respond w (''lora_'' @ timestamp w @ ''.jpg'')"
  let ?mcp = "\<lambda>u. (respond 200 [(''image_url'', Some u)], [])"
  have "fal_flux_lora_generate e w req = generate w ?rq ?fin"
    using assms lo by (simp add: fal_flux_lora_generate_def lora_generate_with_def)
  moreover obtain evs where "snd (generate w ?rq ?fin) = Fetch ?rq # evs"
    using generate_first_event by blast
  ultimately have 1: "snd (fal_flux_lora_generate e w req) = Fetch ?rq # evs" by simp
  have "mcp_fal_flux_lora_generate e w req = generate w ?rq ?mcp"
    using assms lo by (simp add: mcp_fal_flux_lora_generate_def lora_generate_with_def)
  moreover obtain evs' where "snd (generate w ?rq ?mcp) = Fetch ?rq # evs'"
    using generate_first_event by blast
  ultimately have 2: "snd (mcp_fal_flux_lora_generate e w req) = Fetch ?rq # evs'" by simp
  have 3: "url ?rq = ''https://fal.run/fal-ai/flux-lora''" by (simp add: fal_call_def)
  have 4: "payload ?rq = Some (JObj
                   [(''prompt'', stringified p),
                    (''image_size'',
                       JObj [(''width'', case map_of kvs ''width'' of None \<Rightarrow> JNum num_1080 | Some v \<Rightarrow> stringified v),
                             (''height'', case map_of kvs ''height'' of None \<Rightarrow> JNum num_1350 | Some v \<Rightarrow> stringified v)]),
                    (''num_inference_steps'', case map_of kvs ''steps'' of None \<Rightarrow> JNum num_28 | Some v \<Rightarrow> stringified v),
                    (''guidance_scale'', case map_of kvs ''guidance'' of None \<Rightarrow> JNum num_3_5 | Some v \<Rightarrow> stringified v),
                    (''enable_safety_checker'', JBool True),
                    (''loras'', stringified (JArr (l # ls))),
                    (''output_format'', JStr ''jpeg''),
                    (''sync_mode'', case map_of kvs ''sync_mode'' of None \<Rightarrow> JBool True | Some v \<Rightarrow> stringified v)])"
    using assms(1)
    by (simp add: fal_call_def falPayload_def stringified_dflt kinds_of_the_literals
          not_negative_zero split: option.splits)
  from 1 2 3 4 show "\<exists>rq evs mevs. snd (fal_flux_lora_generate e w req) = Fetch rq # evs
              \<and> snd (mcp_fal_flux_lora_generate e w req) = Fetch rq # mevs
              \<and> url rq = ''https://fal.run/fal-ai/flux-lora''
              \<and> payload rq = Some (JObj
                   [(''prompt'', stringified p),
                    (''image_size'',
                       JObj [(''width'', case map_of kvs ''width'' of None \<Rightarrow> JNum num_1080 | Some v \<Rightarrow> stringified v),
                             (''height'', case map_of kvs ''height'' of None \<Rightarrow> JNum num_1350 | Some v \<Rightarrow> stringified v)]),
                    (''num_inference_steps'', case map_of kvs ''steps'' of None \<Rightarrow> JNum num_28 | Some v \<Rightarrow> stringified v),
                    (''guidance_scale'', case map_of kvs ''guidance'' of None \<Rightarrow> JNum num_3_5 | Some v \<Rightarrow> stringified v),
                    (''enable_safety_checker'', JBool True),
                    (''loras'', stringified (JArr (l # ls))),
                    (''output_format'', JStr ''jpeg''),
                    (''sync_mode'', case map_of kvs ''sync_mode'' of None \<Rightarrow> JBool True | Some v \<Rightarrow> stringified v)])"
    by blast
qed (simp_all add: kinds_of_the_literals not_negative_zero)

theorem defaults_only_for_absent_fields_witness:
  "(\<exists>rq evs.
      snd (fal_generate keyed_env (scripted [] [] (\<lambda>p d. None))
             \<lparr>authorization = None,
              body = JObj [(''prompt'', JStr ''a cat''), (''width'', JNum num_0), (''height'', JNull),
                           (''sync_mode'', JBool False),
                           (''loras'', JArr [JObj [(''path'', JStr ''x''), (''scale'', JNum num_1)]])]\<rparr>)
        = Fetch rq # evs
      \<and> payload rq = Some (JObj
           [(''prompt'', JStr ''a cat''),
            (''image_size'', JObj [(''width'', JNum num_0), (''height'', JNull)]),
            (''num_inference_steps'', JNum num_28),
            (''guidance_scale'', JNum num_3_5),
            (''enable_safety_checker'', JBool True),
            (''output_format'', JStr ''jpeg''),
            (''sync_mode'', JBool False)]))
   \<and> (\<exists>rq evs.
      snd (fal_flux_lora_generate keyed_env (scripted [] [] (\<lambda>p d. None))
             \<lparr>authorization = None,
              body = JObj [(''prompt'', JStr ''a cat''), (''width'', JNum num_0), (''height'', JNull),
                           (''sync_mode'', JBool False),
                           (''loras'', JArr [JObj [(''path'', JStr ''x''), (''scale'', JNum num_1)]])]\<rparr>)
        = Fetch rq # evs
      \<and> payload rq = Some (JObj
           [(''prompt'', JStr ''a cat''),
            (''image_size'', JObj [(''width'', JNum num_0), (''height'', JNull)]),
            (''num_inference_steps'', JNum num_28),
            (''guidance_scale'', JNum num_3_5),
            (''enable_safety_checker'', JBool True),
            (''loras'', JArr [JObj [(''path'', JStr ''x''), (''scale'', JNum num_1)]]),
            (''output_format'', JStr ''jpeg''),
            (''sync_mode'', JBool False)]))"
  using defaults_only_for_absent_fields
          [where req = "\<lparr>authorization = None,
              body = JObj [(''prompt'', JStr ''a cat''), (''width'', JNum num_0), (''height'', JNull),
                           (''sync_mode'', JBool False),
                           (''loras'', JArr [JObj [(''path'', JStr ''x''), (''scale'', JNum num_1)]])]\<rparr>"
             and kvs = "[(''prompt'', JStr ''a cat''), (''width'', JNum num_0), (''height'', JNull),
                           (''sync_mode'', JBool False),
                           (''loras'', JArr [JObj [(''path'', JStr ''x''), (''scale'', JNum num_1)]])]"
             and p = "JStr ''a cat''" and e = keyed_env and w = "scripted [] [] (\<lambda>p d. None)"
             and l = "JObj [(''path'', JStr ''x''), (''scale'', JNum num_1)]" and ls = "[]"
             and b = True and s = "[]" and d = num_0]
  by (simp add: keyed_env_def kinds_of_the_literals not_negative_zero) blast







text \<open>
  A reply that parses to a value that is not an object is outside the amended claim: for
  the number \<^verbatim>\<open>5\<close> the \<^verbatim>\<open>in\<close> operator throws inside the \<^verbatim>\<open>try\<close>, and the
  response is that of a reply that does not parse.
\<close>

lemma number_reply_counts_as_unparsed:
  "parsed_reply (scripted [] [(''5'', JNum num_5)] (\<lambda>p d. None)) (Some (JStr ''5'')) =
     \<lparr>status_code = 500,
      json_body = JObj [(''error'', JStr ''Failed to parse OpenAI response as JSON''),
                        (''raw_content'', JStr ''5'')]\<rparr>"
  by (simp add: parsed_reply_def validated_def parse_failed_def respond_def scripted_def
        cleanContent_def trim_def startsWith_def is_space_def)



text \<open>
  C4. \<^verbatim>\<open>saveImageToFolder\<close> never throws. When \<^verbatim>\<open>mkdirSync\<close> throws, when
  \<^verbatim>\<open>writeFileSync\<close> throws, and when \<^verbatim>\<open>base64Data.replace\<close> is called on a value
  that is not a string, it returns the failure flag with the message of what was thrown;
  otherwise it returns the success flag with path and filename. When the provider call of
  an image endpoint of \<^verbatim>\<open>src/server.js\<close> has given the URL of an image and one of the
  three is thrown while the image is saved, the endpoint answers 200 with the
  \<^verbatim>\<open>image_url\<close>, \<^verbatim>\<open>saved_to_file\<close> null and \<^verbatim>\<open>save_error\<close> the message of
  what was thrown. The message is taken to be non-empty, as the messages of the errors of
  \<^verbatim>\<open>fs\<close> and of the engine are.
\<close>

theorem persistence_failure_is_not_fatal:
  assumes "body req = JObj kvs" and "truthy (map_of kvs ''prompt'')" and "set_env (FAL_KEY e)"
    and "net w [] rq = Resolved r" and "ok r" and "body_json r = Inr data"
    and "first_image_url data = Inr (Some u)"
    and "(\<not> existsSync w (imagesDir w) \<and> mkdirSync w (imagesDir w) = Some x)
       \<or> ((existsSync w (imagesDir w) \<or> mkdirSync w (imagesDir w) = None)
           \<and> (\<exists>c. u = JStr c
                  \<and> writeFileSync w (path_join w (imagesDir w) filename) (strip_data_url c) = Some x))
       \<or> ((existsSync w (imagesDir w) \<or> mkdirSync w (imagesDir w) = None)
           \<and> (\<forall>c. u \<noteq> JStr c) \<and> x = NotAFunction ''base64Data.replace'')"
    and "message w x \<noteq> []"
  shows "(rq = fal_call e ''https://fal.run/fal-ai/flux'' (falPayload (body req) (map_of kvs ''prompt'') None)
          \<and> filename = ''generated_'' @ timestamp w @ ''.jpg''
          \<longrightarrow> fst (fal_generate e w req) =
                \<lparr>status_code = 200,
                 json_body = JObj [(''image_url'', u), (''saved_to_file'', JNull),
                                   (''save_error'', JStr (message w x))]\<rparr>)
       \<and> (map_of kvs ''loras'' = Some (JArr (l # ls))
          \<and> rq = fal_call e ''https://fal.run/fal-ai/flux-lora''
                   (falPayload (body req) (map_of kvs ''prompt'') (map_of kvs ''loras''))
          \<and> filename = ''lora_'' @ timestamp w @ ''.jpg''
          \<longrightarrow> fst (fal_flux_lora_generate e w req) =
                \<lparr>status_code = 200,
                 json_body = JObj [(''image_url'', u), (''saved_to_file'', JNull),
                                   (''save_error'', JStr (message w x))]\<rparr>)
       \<and> (\<not> existsSync w (imagesDir w) \<and> mkdirSync w (imagesDir w) = Some y
          \<longrightarrow> fst (saveImageToFolder w b f) = NotSaved (message w y))
       \<and> ((existsSync w (imagesDir w) \<or> mkdirSync w (imagesDir w) = None)
          \<and> b = JStr c
          \<and> writeFileSync w (path_join w (imagesDir w) f) (strip_data_url c) = Some y
          \<longrightarrow> fst (saveImageToFolder w b f) = NotSaved (message w y))
       \<and> ((existsSync w (imagesDir w) \<or> mkdirSync w (imagesDir w) = None)
          \<and> (\<forall>c. b \<noteq> JStr c)
          \<longrightarrow> fst (saveImageToFolder w b f) =
                NotSaved (message w (NotAFunction ''base64Data.replace'')))
       \<and> ((existsSync w (imagesDir w) \<or> mkdirSync w (imagesDir w) = None)
          \<and> b = JStr c
          \<and> writeFileSync w (path_join w (imagesDir w) f) (strip_data_url c) = None
          \<longrightarrow> fst (saveImageToFolder w b f) = Saved (path_join w (imagesDir w) f) f)"
proof (intro conjI)
  have failed: "fst (saveImageToFolder w u filename) = NotSaved (message w x)"
    using assms(8)
    by (cases u; cases "existsSync w (imagesDir w)")
       (auto simp: saveImageToFolder_def Let_def)
  have fin: "fst (save_and_respond w filename u) =
      \<lparr>status_code = 200,
       json_body = JObj [(''image_url'', u), (''saved_to_file'', JNull),
                         (''save_error'', JStr (message w x))]\<rparr>"
    using failed assms(9)
    by (cases "saveImageToFolder w u filename") (simp add: save_and_respond_def respond_def)
  have gen: "fst (generate w rq (save_and_respond w filename)) = fst (save_and_respond w filename u)"
    using assms(4-7) by (cases "save_and_respond w filename u") (simp add: generate_def)
  show "rq = fal_call e ''https://fal.run/fal-ai/flux'' (falPayload (body req) (map_of kvs ''prompt'') None)
          \<and> filename = ''generated_'' @ timestamp w @ ''.jpg''
          \<longrightarrow> fst (fal_generate e w req) =
                \<lparr>status_code = 200,
                 json_body = JObj [(''image_url'', u), (''saved_to_file'', JNull),
                                   (''save_error'', JStr (message w x))]\<rparr>"
    using assms(1-3) fin gen by (auto simp: fal_generate_def)
  show "map_of kvs ''loras'' = Some (JArr (l # ls))
          \<and> rq = fal_call e ''https://fal.run/fal-ai/flux-lora''
                   (falPayload (body req) (map_of kvs ''prompt'') (map_of kvs ''loras''))
          \<and> filename = ''lora_'' @ timestamp w @ ''.jpg''
          \<longrightarrow> fst (fal_flux_lora_generate e w req) =
                \<lparr>status_code = 200,
                 json_body = JObj [(''image_url'', u), (''saved_to_file'', JNull),
                                   (''save_error'', JStr (message w x))]\<rparr>"
    using assms(1-3) fin gen by (auto simp: fal_flux_lora_generate_def lora_generate_with_def)
  show "\<not> existsSync w (imagesDir w) \<and> mkdirSync w (imagesDir w) = Some y
          \<longrightarrow> fst (saveImageToFolder w b f) = NotSaved (message w y)"
    by (auto simp: saveImageToFolder_def Let_def)
  show "(existsSync w (imagesDir w) \<or> mkdirSync w (imagesDir w) = None)
          \<and> b = JStr c
          \<and> writeFileSync w (path_join w (imagesDir w) f) (strip_data_url c) = Some y
          \<longrightarrow> fst (saveImageToFolder w b f) = NotSaved (message w y)"
    by (auto simp: saveImageToFolder_def Let_def)
  show "(existsSync w (imagesDir w) \<or> mkdirSync w (imagesDir w) = None)
          \<and> (\<forall>c. b \<noteq> JStr c)
          \<longrightarrow> fst (saveImageToFolder w b f) =
                NotSaved (message w (NotAFunction ''base64Data.replace''))"
    by (cases b) (auto simp: saveImageToFolder_def Let_def)
  show "(existsSync w (imagesDir w) \<or> mkdirSync w (imagesDir w) = None)
          \<and> b = JStr c
          \<and> writeFileSync w (path_join w (imagesDir w) f) (strip_data_url c) = None
          \<longrightarrow> fst (saveImageToFolder w b f) = Saved (path_join w (imagesDir w) f) f"
    by (auto simp: saveImageToFolder_def Let_def)
qed

lemma data_url_stripped: "strip_data_url ''data:image/jpeg;base64,AAAA'' = ''AAAA''"
  by code_simp

lemma scripted_net:
  "net (scripted replies table write) evs rq =
     (if length evs < length replies then Resolved (replies ! length evs)
      else Rejected (Error ''fetch failed''))"
  by (simp add: scripted_def)

lemma scripted_clock: "timestamp (scripted replies table write) = ''2025-01-02T03-04-05-678Z''"
  by (simp add: scripted_def timestamp_def)

lemma scripted_files:
  "existsSync (scripted replies table write) dir"
  "writeFileSync (scripted replies table write) = write"
  by (simp_all add: scripted_def)

theorem persistence_failure_is_not_fatal_witness:
  "fst (fal_generate keyed_env
          (scripted [json_reply (JObj [(''images'', JArr [JObj [(''url'', JStr ''data:image/jpeg;base64,AAAA'')]])])]
             [] (\<lambda>p d. Some (Error ''EACCES: permission denied'')))
          \<lparr>authorization = Some ''Bearer s3cret'',
           body = JObj [(''prompt'', JStr ''a cat''), (''loras'', JArr [JObj [(''path'', JStr ''x'')]])]\<rparr>)
     = \<lparr>status_code = 200,
        json_body = JObj [(''image_url'', JStr ''data:image/jpeg;base64,AAAA''),
                          (''saved_to_file'', JNull),
                          (''save_error'', JStr ''EACCES: permission denied'')]\<rparr>
   \<and> fst (fal_flux_lora_generate keyed_env
          (scripted [json_reply (JObj [(''images'', JArr [JObj [(''url'', JStr ''data:image/jpeg;base64,AAAA'')]])])]
             [] (\<lambda>p d. Some (Error ''EACCES: permission denied'')))
          \<lparr>authorization = Some ''Bearer s3cret'',
           body = JObj [(''prompt'', JStr ''a cat''), (''loras'', JArr [JObj [(''path'', JStr ''x'')]])]\<rparr>)
     = \<lparr>status_code = 200,
        json_body = JObj [(''image_url'', JStr ''data:image/jpeg;base64,AAAA''),
                          (''saved_to_file'', JNull),
                          (''save_error'', JStr ''EACCES: permission denied'')]\<rparr>
   \<and> fst (saveImageToFolder
          (scripted [json_reply (JObj [(''images'', JArr [JObj [(''url'', JStr ''data:image/jpeg;base64,AAAA'')]])])]
             [] (\<lambda>p d. Some (Error ''EACCES: permission denied'')))
          (JStr ''data:image/jpeg;base64,AAAA'') ''x.jpg'')
     = NotSaved ''EACCES: permission denied''"
proof -
  let ?w = "scripted [json_reply (JObj [(''images'', JArr [JObj [(''url'', JStr ''data:image/jpeg;base64,AAAA'')]])])]
             [] (\<lambda>p d. Some (Error ''EACCES: permission denied''))"
  let ?req = "\<lparr>authorization = Some ''Bearer s3cret'',
           body = JObj [(''prompt'', JStr ''a cat''), (''loras'', JArr [JObj [(''path'', JStr ''x'')]])]\<rparr>"
  let ?data = "JObj [(''images'', JArr [JObj [(''url'', JStr ''data:image/jpeg;base64,AAAA'')]])]"
  have "fst (fal_generate keyed_env ?w ?req) = \<lparr>status_code = 200,
        json_body = JObj [(''image_url'', JStr ''data:image/jpeg;base64,AAAA''),
                          (''saved_to_file'', JNull),
                          (''save_error'', JStr ''EACCES: permission denied'')]\<rparr>
      \<and> fst (saveImageToFolder ?w (JStr ''data:image/jpeg;base64,AAAA'') ''x.jpg'')
          = NotSaved ''EACCES: permission denied''"
    using persistence_failure_is_not_fatal
          [where req = "?req"
             and kvs = "[(''prompt'', JStr ''a cat''), (''loras'', JArr [JObj [(''path'', JStr ''x'')]])]"
             and e = keyed_env and w = "?w"
             and rq = "fal_call keyed_env ''https://fal.run/fal-ai/flux''
                         (falPayload (JObj [(''prompt'', JStr ''a cat''), (''loras'', JArr [JObj [(''path'', JStr ''x'')]])])
                            (Some (JStr ''a cat'')) None)"
             and r = "json_reply ?data" and data = "?data"
             and u = "JStr ''data:image/jpeg;base64,AAAA''"
             and filename = "''generated_2025-01-02T03-04-05-678Z.jpg''"
             and x = "Error ''EACCES: permission denied''"
             and l = "JObj [(''path'', JStr ''x'')]" and ls = "[]"
             and b = "JStr ''data:image/jpeg;base64,AAAA''" and f = "''x.jpg''"
             and c = "''data:image/jpeg;base64,AAAA''"
             and y = "Error ''EACCES: permission denied''"]
    by (simp add: scripted_net scripted_clock scripted_files data_url_stripped json_reply_def
          keyed_env_def ok_def first_image_url_def)
  moreover have "fst (fal_flux_lora_generate keyed_env ?w ?req) = \<lparr>status_code = 200,
        json_body = JObj [(''image_url'', JStr ''data:image/jpeg;base64,AAAA''),
                          (''saved_to_file'', JNull),
                          (''save_error'', JStr ''EACCES: permission denied'')]\<rparr>"
    using persistence_failure_is_not_fatal
          [where req = "?req"
             and kvs = "[(''prompt'', JStr ''a cat''), (''loras'', JArr [JObj [(''path'', JStr ''x'')]])]"
             and e = keyed_env and w = "?w"
             and rq = "fal_call keyed_env ''https://fal.run/fal-ai/flux-lora''
                         (falPayload (JObj [(''prompt'', JStr ''a cat''), (''loras'', JArr [JObj [(''path'', JStr ''x'')]])])
                            (Some (JStr ''a cat'')) (Some (JArr [JObj [(''path'', JStr ''x'')]])))"
             and r = "json_reply ?data" and data = "?data"
             and u = "JStr ''data:image/jpeg;base64,AAAA''"
             and filename = "''lora_2025-01-02T03-04-05-678Z.jpg''"
             and x = "Error ''EACCES: permission denied''"
             and l = "JObj [(''path'', JStr ''x'')]" and ls = "[]"
             and b = "JStr ''data:image/jpeg;base64,AAAA''" and f = "''x.jpg''"
             and c = "''data:image/jpeg;base64,AAAA''"
             and y = "Error ''EACCES: permission denied''"]
    by (simp add: scripted_net scripted_clock scripted_files data_url_stripped json_reply_def
          keyed_env_def ok_def first_image_url_def)
  ultimately show ?thesis by simp
qed






end
